theory Spec2Isabelle
  imports Complex_Main
begin

section \<open>Python values and arithmetic\<close>

text \<open>
  The valuation engine (class \<open>EquityValuation\<close> of \<open>valuation_functions.py\<close>) works on
  numbers of two kinds. The fundamentals snapshot and the arguments hold Python numbers:
  \<open>None\<close>, a number (\<open>int\<close> and \<open>float\<close> are not distinguished) or the float NaN
  (\<open>np.nan\<close>). A scalar read from a float64 pandas frame, and a result of
  \<open>scipy.stats.linregress\<close>, is a \<open>numpy.float64\<close>: a finite number, an infinity or NaN.
  A finite float is idealised as the real number it stands for: rounding, overflow and
  the sign of zero are outside the model, but for the capital-structure weights, whose
  rounding is written out further down.
\<close>

datatype np_float = Fin real | PosInf | NegInf | NotANumber

datatype pyval = PyNone | Num real | NaN | Np np_float

datatype py_error = TypeError | ZeroDivisionError | KeyError | IndexError

definition py_bind :: "py_error + 'a \<Rightarrow> ('a \<Rightarrow> py_error + 'b) \<Rightarrow> py_error + 'b" where
  "py_bind r f = (case r of Inl err \<Rightarrow> Inl err | Inr v \<Rightarrow> f v)"

subsection \<open>The arithmetic of numpy.float64\<close>

text \<open>
  IEEE 754 arithmetic without traps: a division by zero gives an infinity of the sign of
  the numerator, or NaN for 0/0, and raises nothing (numpy only warns, and the module
  silences warnings). The zero is taken as positive.
\<close>

fun signed_inf :: "real \<Rightarrow> np_float" where
  "signed_inf s = (if 0 < s then PosInf else if s < 0 then NegInf else NotANumber)"

fun np_sign :: "np_float \<Rightarrow> real" where
  "np_sign (Fin a) = sgn a"
| "np_sign PosInf = 1"
| "np_sign NegInf = - 1"
| "np_sign NotANumber = 0"

fun np_neg :: "np_float \<Rightarrow> np_float" where
  "np_neg (Fin a) = Fin (- a)"
| "np_neg PosInf = NegInf"
| "np_neg NegInf = PosInf"
| "np_neg NotANumber = NotANumber"

fun np_add :: "np_float \<Rightarrow> np_float \<Rightarrow> np_float" where
  "np_add NotANumber y = NotANumber"
| "np_add x NotANumber = NotANumber"
| "np_add (Fin a) (Fin b) = Fin (a + b)"
| "np_add PosInf NegInf = NotANumber"
| "np_add NegInf PosInf = NotANumber"
| "np_add PosInf y = PosInf"
| "np_add NegInf y = NegInf"
| "np_add (Fin a) y = y"

definition np_sub :: "np_float \<Rightarrow> np_float \<Rightarrow> np_float" where
  "np_sub x y = np_add x (np_neg y)"

fun np_mul :: "np_float \<Rightarrow> np_float \<Rightarrow> np_float" where
  "np_mul NotANumber y = NotANumber"
| "np_mul x NotANumber = NotANumber"
| "np_mul (Fin a) (Fin b) = Fin (a * b)"
| "np_mul x y = signed_inf (np_sign x * np_sign y)"

fun np_div :: "np_float \<Rightarrow> np_float \<Rightarrow> np_float" where
  "np_div NotANumber y = NotANumber"
| "np_div x NotANumber = NotANumber"
| "np_div (Fin a) (Fin b) = (if b = 0 then signed_inf a else Fin (a / b))"
| "np_div (Fin a) y = Fin 0"
| "np_div x (Fin b) = signed_inf (np_sign x * (if b < 0 then - 1 else 1))"
| "np_div x y = NotANumber"

fun np_pow :: "np_float \<Rightarrow> nat \<Rightarrow> np_float" where
  "np_pow x 0 = Fin 1"
| "np_pow (Fin a) n = Fin (a ^ n)"
| "np_pow PosInf n = PosInf"
| "np_pow NegInf n = (if even n then PosInf else NegInf)"
| "np_pow NotANumber n = NotANumber"

fun np_less :: "np_float \<Rightarrow> np_float \<Rightarrow> bool" where
  "np_less NotANumber y = False"
| "np_less x NotANumber = False"
| "np_less (Fin a) (Fin b) = (a < b)"
| "np_less x NegInf = False"
| "np_less PosInf y = False"
| "np_less x y = True"

subsection \<open>The operators\<close>

text \<open>
  An operand \<open>None\<close> raises \<open>TypeError\<close>. Between Python numbers a zero divisor raises
  \<open>ZeroDivisionError\<close>, also under a NaN numerator, and NaN propagates and compares
  false. As soon as one operand is a \<open>numpy.float64\<close> the operation is numpy's, also
  when it stands on the right (\<open>numpy.float64\<close> is a subclass of \<open>float\<close> that
  overrides the reflected operators), and the result is a \<open>numpy.float64\<close>.
\<close>

fun as_np :: "pyval \<Rightarrow> np_float" where
  "as_np (Num a) = Fin a"
| "as_np (Np x) = x"
| "as_np NaN = NotANumber"
| "as_np PyNone = NotANumber"

fun py_add :: "pyval \<Rightarrow> pyval \<Rightarrow> py_error + pyval" where
  "py_add PyNone b = Inl TypeError"
| "py_add a PyNone = Inl TypeError"
| "py_add (Np x) b = Inr (Np (np_add x (as_np b)))"
| "py_add a (Np y) = Inr (Np (np_add (as_np a) y))"
| "py_add (Num a) (Num b) = Inr (Num (a + b))"
| "py_add a b = Inr NaN"

fun py_sub :: "pyval \<Rightarrow> pyval \<Rightarrow> py_error + pyval" where
  "py_sub PyNone b = Inl TypeError"
| "py_sub a PyNone = Inl TypeError"
| "py_sub (Np x) b = Inr (Np (np_sub x (as_np b)))"
| "py_sub a (Np y) = Inr (Np (np_sub (as_np a) y))"
| "py_sub (Num a) (Num b) = Inr (Num (a - b))"
| "py_sub a b = Inr NaN"

fun py_mul :: "pyval \<Rightarrow> pyval \<Rightarrow> py_error + pyval" where
  "py_mul PyNone b = Inl TypeError"
| "py_mul a PyNone = Inl TypeError"
| "py_mul (Np x) b = Inr (Np (np_mul x (as_np b)))"
| "py_mul a (Np y) = Inr (Np (np_mul (as_np a) y))"
| "py_mul (Num a) (Num b) = Inr (Num (a * b))"
| "py_mul a b = Inr NaN"

fun py_div :: "pyval \<Rightarrow> pyval \<Rightarrow> py_error + pyval" where
  "py_div PyNone b = Inl TypeError"
| "py_div a PyNone = Inl TypeError"
| "py_div (Np x) b = Inr (Np (np_div x (as_np b)))"
| "py_div a (Np y) = Inr (Np (np_div (as_np a) y))"
| "py_div (Num a) (Num b) = (if b = 0 then Inl ZeroDivisionError else Inr (Num (a / b)))"
| "py_div NaN (Num b) = (if b = 0 then Inl ZeroDivisionError else Inr NaN)"
| "py_div a NaN = Inr NaN"

text \<open>\<open>a ** n\<close> for the non-negative integer exponents the engine uses.\<close>

fun py_pow :: "pyval \<Rightarrow> nat \<Rightarrow> py_error + pyval" where
  "py_pow PyNone n = Inl TypeError"
| "py_pow (Num a) n = Inr (Num (a ^ n))"
| "py_pow NaN n = (if n = 0 then Inr (Num 1) else Inr NaN)"
| "py_pow (Np x) n = Inr (Np (np_pow x n))"

fun py_gt :: "pyval \<Rightarrow> pyval \<Rightarrow> py_error + bool" where
  "py_gt PyNone b = Inl TypeError"
| "py_gt a PyNone = Inl TypeError"
| "py_gt (Np x) b = Inr (np_less (as_np b) x)"
| "py_gt a (Np y) = Inr (np_less y (as_np a))"
| "py_gt (Num a) (Num b) = Inr (a > b)"
| "py_gt a b = Inr False"

fun py_lt :: "pyval \<Rightarrow> pyval \<Rightarrow> py_error + bool" where
  "py_lt PyNone b = Inl TypeError"
| "py_lt a PyNone = Inl TypeError"
| "py_lt (Np x) b = Inr (np_less x (as_np b))"
| "py_lt a (Np y) = Inr (np_less (as_np a) y)"
| "py_lt (Num a) (Num b) = Inr (a < b)"
| "py_lt a b = Inr False"

text \<open>
  Truth value of a number in a condition: \<open>None\<close> and zero are false, NaN and the
  infinities are true.
\<close>

fun truthy :: "pyval \<Rightarrow> bool" where
  "truthy PyNone = False"
| "truthy (Num a) = (a \<noteq> 0)"
| "truthy NaN = True"
| "truthy (Np x) = (x \<noteq> Fin 0)"

text \<open>The kind of a value, and the real number a finite value stands for.\<close>

fun is_numpy :: "pyval \<Rightarrow> bool" where
  "is_numpy (Np x) = True"
| "is_numpy v = False"


text \<open>\<open>d.get(k, default)\<close> and \<open>d[k]\<close> on a dictionary.\<close>

definition dict_get :: "(string \<rightharpoonup> 'v) \<Rightarrow> string \<Rightarrow> 'v \<Rightarrow> 'v" where
  "dict_get d k dflt = (case d k of None \<Rightarrow> dflt | Some v \<Rightarrow> v)"

definition dict_item :: "(string \<rightharpoonup> 'v) \<Rightarrow> string \<Rightarrow> py_error + 'v" where
  "dict_item d k = (case d k of None \<Rightarrow> Inl KeyError | Some v \<Rightarrow> Inr v)"

section \<open>The engine's data\<close>

text \<open>
  The state of an \<open>EquityValuation\<close> instance after \<open>get_financial_data\<close>:
  \<^item> \<open>risk_free_rate\<close>, \<open>market_return\<close>: the constructor's arguments;
  \<^item> \<open>info\<close>: the fundamentals snapshot \<open>self.info\<close>, restricted to its numeric metrics
    (a key is absent, or holds a number, NaN or \<open>None\<close>);
  \<^item> \<open>info_text\<close>: the snapshot's textual identity fields (\<open>longName\<close>, \<open>sector\<close>,
    \<open>industry\<close>);
  \<^item> \<open>cash_flow\<close>: the cash-flow statement \<open>self.cash_flow\<close>, a row label mapped to the
    row's values, most recent period first; the values of a float64 frame are
    \<open>numpy.float64\<close>, those of a frame of dtype object are the Python numbers it holds;
  \<^item> \<open>regression\<close>: what the body of \<open>calculate_beta\<close> computes from the provider's price
    histories (slope, intercept, r squared, each a \<open>numpy.float64\<close>), or \<open>None\<close> when
    fetching or regressing raises. The market-data provider and the regression are
    external to the engine.
\<close>

record engine =
  risk_free_rate :: pyval
  market_return :: pyval
  info :: "string \<rightharpoonup> pyval"
  info_text :: "string \<rightharpoonup> string"
  cash_flow :: "string \<rightharpoonup> pyval list"
  regression :: "(pyval \<times> pyval \<times> pyval) option"

section \<open>calculate\_financial\_ratios\<close>

text \<open>
  The ratios are assigned one after the other inside one \<open>try\<close>; the handler prints and
  the dictionary built so far is returned. An assignment is a key with the outcome of
  evaluating its right-hand side.
\<close>

fun assign_all :: "(string \<times> (py_error + pyval)) list \<Rightarrow> (string \<rightharpoonup> pyval) \<Rightarrow> (string \<rightharpoonup> pyval)" where
  "assign_all [] ratios = ratios"
| "assign_all ((k, Inr v) # rest) ratios = assign_all rest (ratios(k \<mapsto> v))"
| "assign_all ((k, Inl err) # rest) ratios = ratios"

definition percent :: "engine \<Rightarrow> string \<Rightarrow> py_error + pyval" where
  "percent e metric = py_mul (dict_get (info e) metric NaN) (Num 100)"

definition dividend_yield :: "engine \<Rightarrow> py_error + pyval" where
  "dividend_yield e =
     (if truthy (dict_get (info e) ''dividendYield'' PyNone)
      then py_mul (dict_get (info e) ''dividendYield'' NaN) (Num 100)
      else Inr (Num 0))"

definition ratio_assignments :: "engine \<Rightarrow> (string \<times> (py_error + pyval)) list" where
  "ratio_assignments e =
     [(''current_price'', Inr (dict_get (info e) ''currentPrice'' NaN)),
      (''market_cap'', Inr (dict_get (info e) ''marketCap'' NaN)),
      (''shares_outstanding'', Inr (dict_get (info e) ''sharesOutstanding'' NaN)),
      (''roe'', percent e ''returnOnEquity''),
      (''roa'', percent e ''returnOnAssets''),
      (''gross_margin'', percent e ''grossMargins''),
      (''operating_margin'', percent e ''operatingMargins''),
      (''profit_margin'', percent e ''profitMargins''),
      (''pe_ratio'', Inr (dict_get (info e) ''trailingPE'' NaN)),
      (''forward_pe'', Inr (dict_get (info e) ''forwardPE'' NaN)),
      (''pb_ratio'', Inr (dict_get (info e) ''priceToBook'' NaN)),
      (''ps_ratio'', Inr (dict_get (info e) ''priceToSalesTrailing12Months'' NaN)),
      (''ev_ebitda'', Inr (dict_get (info e) ''enterpriseToEbitda'' NaN)),
      (''ev_revenue'', Inr (dict_get (info e) ''enterpriseToRevenue'' NaN)),
      (''current_ratio'', Inr (dict_get (info e) ''currentRatio'' NaN)),
      (''quick_ratio'', Inr (dict_get (info e) ''quickRatio'' NaN)),
      (''debt_equity'', Inr (dict_get (info e) ''debtToEquity'' NaN)),
      (''debt_ebitda'', Inr (dict_get (info e) ''debtToEbitda'' NaN)),
      (''dividend_yield'', dividend_yield e),
      (''payout_ratio'', percent e ''payoutRatio'')]"

definition calculate_financial_ratios :: "engine \<Rightarrow> (string \<rightharpoonup> pyval)" where
  "calculate_financial_ratios e = assign_all (ratio_assignments e) Map.empty"

section \<open>calculate\_beta and calculate\_wacc\<close>

definition calculate_beta :: "engine \<Rightarrow> (string \<rightharpoonup> pyval)" where
  "calculate_beta e =
     (case regression e of
        Some (beta, alpha, r_squared) \<Rightarrow>
          [''beta'' \<mapsto> beta, ''alpha'' \<mapsto> alpha, ''r_squared'' \<mapsto> r_squared]
      | None \<Rightarrow> [''beta'' \<mapsto> Num 1, ''alpha'' \<mapsto> Num 0, ''r_squared'' \<mapsto> Num 0])"

text \<open>The estimate made when \<open>cost_of_debt is None\<close>.\<close>

definition estimate_cost_of_debt :: "engine \<Rightarrow> py_error + pyval" where
  "estimate_cost_of_debt e =
     (let interest_expense = dict_get (info e) ''interestExpense'' (Num 0);
          total_debt = dict_get (info e) ''totalDebt'' (Num 1)
      in py_bind (py_gt total_debt (Num 0)) (\<lambda>positive.
           if positive then py_div interest_expense total_debt else Inr (Num 0.06)))"

text \<open>The body of the \<open>try\<close> of \<open>calculate_wacc\<close>.\<close>

definition wacc_try :: "engine \<Rightarrow> pyval \<Rightarrow> pyval \<Rightarrow> pyval \<Rightarrow> py_error + (string \<rightharpoonup> pyval)" where
  "wacc_try e beta cost_of_debt tax_rate =
     py_bind (py_sub (market_return e) (risk_free_rate e)) (\<lambda>premium.
     py_bind (py_mul beta premium) (\<lambda>risk.
     py_bind (py_add (risk_free_rate e) risk) (\<lambda>cost_of_equity.
     py_bind (if cost_of_debt = PyNone then estimate_cost_of_debt e else Inr cost_of_debt)
       (\<lambda>cost_of_debt.
     let market_cap = dict_get (info e) ''marketCap'' (Num 1);
         total_debt = dict_get (info e) ''totalDebt'' (Num 0)
     in
     py_bind (py_add market_cap total_debt) (\<lambda>capital.
     py_bind (py_div market_cap capital) (\<lambda>equity_weight.
     py_bind (py_add market_cap total_debt) (\<lambda>capital.
     py_bind (py_div total_debt capital) (\<lambda>debt_weight.
     py_bind (py_mul equity_weight cost_of_equity) (\<lambda>equity_part.
     py_bind (py_mul debt_weight cost_of_debt) (\<lambda>debt_cost.
     py_bind (py_sub (Num 1) tax_rate) (\<lambda>after_tax.
     py_bind (py_mul debt_cost after_tax) (\<lambda>debt_part.
     py_bind (py_add equity_part debt_part) (\<lambda>wacc.
     Inr [''wacc'' \<mapsto> wacc,
          ''cost_of_equity'' \<mapsto> cost_of_equity,
          ''cost_of_debt'' \<mapsto> cost_of_debt,
          ''equity_weight'' \<mapsto> equity_weight,
          ''debt_weight'' \<mapsto> debt_weight])))))))))))))"

definition calculate_wacc :: "engine \<Rightarrow> pyval \<Rightarrow> pyval \<Rightarrow> pyval \<Rightarrow> (string \<rightharpoonup> pyval)" where
  "calculate_wacc e beta cost_of_debt tax_rate =
     (case wacc_try e beta cost_of_debt tax_rate of
        Inr result \<Rightarrow> result
      | Inl err \<Rightarrow>
          [''wacc'' \<mapsto> Num 0.09, ''cost_of_equity'' \<mapsto> Num 0.10, ''cost_of_debt'' \<mapsto> Num 0.06])"

section \<open>dcf\_valuation\<close>

text \<open>\<open>statement.loc[label, :].iloc[0]\<close>: the most recent value of a row of a statement.\<close>

definition statement_latest :: "(string \<rightharpoonup> pyval list) \<Rightarrow> string \<Rightarrow> py_error + pyval" where
  "statement_latest statement label =
     (case statement label of
        None \<Rightarrow> Inl KeyError
      | Some [] \<Rightarrow> Inl IndexError
      | Some (v # older) \<Rightarrow> Inr v)"

text \<open>The projection loop, over the years of \<open>range(1, years + 1)\<close>.\<close>

fun project_fcff :: "pyval \<Rightarrow> pyval \<Rightarrow> nat list \<Rightarrow> py_error + pyval list" where
  "project_fcff fcff growth_rate [] = Inr []"
| "project_fcff fcff growth_rate (year # later) =
     py_bind (py_add (Num 1) growth_rate) (\<lambda>base.
     py_bind (py_pow base year) (\<lambda>factor.
     py_bind (py_mul fcff factor) (\<lambda>fcff_projected.
     py_bind (project_fcff fcff growth_rate later) (\<lambda>rest.
     Inr (fcff_projected # rest)))))"

text \<open>\<open>xs[-1]\<close>.\<close>

definition py_last :: "'a list \<Rightarrow> py_error + 'a" where
  "py_last xs = (if xs = [] then Inl IndexError else Inr (last xs))"

definition terminal_fcff :: "pyval list \<Rightarrow> pyval \<Rightarrow> py_error + pyval" where
  "terminal_fcff fcff_projections terminal_growth =
     py_bind (py_last fcff_projections) (\<lambda>final.
     py_bind (py_add (Num 1) terminal_growth) (\<lambda>growth.
     py_mul final growth))"

definition terminal_value :: "pyval list \<Rightarrow> pyval \<Rightarrow> pyval \<Rightarrow> py_error + pyval" where
  "terminal_value fcff_projections wacc terminal_growth =
     py_bind (terminal_fcff fcff_projections terminal_growth) (\<lambda>terminal.
     py_bind (py_sub wacc terminal_growth) (\<lambda>spread.
     py_div terminal spread))"

text \<open>The discounting loop, \<open>i\<close> being the index \<open>enumerate\<close> gives.\<close>

fun discount_all :: "pyval \<Rightarrow> nat \<Rightarrow> pyval list \<Rightarrow> py_error + pyval list" where
  "discount_all wacc i [] = Inr []"
| "discount_all wacc i (fcff_proj # later) =
     py_bind (py_add (Num 1) wacc) (\<lambda>base.
     py_bind (py_pow base (i + 1)) (\<lambda>factor.
     py_bind (py_div fcff_proj factor) (\<lambda>pv.
     py_bind (discount_all wacc (i + 1) later) (\<lambda>rest.
     Inr (pv # rest)))))"

text \<open>\<open>sum(xs)\<close>, from the accumulator \<open>0\<close>.\<close>

fun py_sum :: "pyval \<Rightarrow> pyval list \<Rightarrow> py_error + pyval" where
  "py_sum acc [] = Inr acc"
| "py_sum acc (x # xs) = py_bind (py_add acc x) (\<lambda>acc'. py_sum acc' xs)"

definition enterprise_value :: "pyval list \<Rightarrow> pyval \<Rightarrow> pyval \<Rightarrow> int \<Rightarrow> py_error + pyval" where
  "enterprise_value fcff_projections terminal wacc years =
     py_bind (discount_all wacc 0 fcff_projections) (\<lambda>present_values.
     py_bind (py_add (Num 1) wacc) (\<lambda>base.
     py_bind (py_pow base (nat years)) (\<lambda>factor.
     py_bind (py_div terminal factor) (\<lambda>pv_terminal.
     py_bind (py_sum (Num 0) present_values) (\<lambda>total.
     py_add total pv_terminal)))))"

text \<open>
  The body of the \<open>try\<close> of \<open>dcf_valuation\<close>: the current free cash flow, the discount
  rate (\<open>calculate_wacc\<close> is called with the beta only, so the cost of debt is estimated
  and the tax rate is the default 0.34), then the valuation. The exponent \<open>years\<close> of the
  terminal discount factor is positive where it is reached: with \<open>years < 1\<close> the
  projection list is empty and \<open>fcff_projections[-1]\<close> has raised before. With a
  float64 statement the current FCFF is a \<open>numpy.float64\<close>, and so is every value
  computed from it: none of the divisions below then raises.
\<close>

definition current_fcff :: "engine \<Rightarrow> py_error + pyval" where
  "current_fcff e =
     py_bind (statement_latest (cash_flow e) ''Operating Cash Flow'') (\<lambda>operating_cash_flow.
     py_bind (statement_latest (cash_flow e) ''Capital Expenditure'') (\<lambda>capital_expenditure.
     py_add operating_cash_flow capital_expenditure))"

definition current_wacc :: "engine \<Rightarrow> py_error + pyval" where
  "current_wacc e =
     py_bind (dict_item (calculate_beta e) ''beta'') (\<lambda>beta.
     dict_item (calculate_wacc e beta PyNone (Num 0.34)) ''wacc'')"

definition dcf_try :: "engine \<Rightarrow> pyval \<Rightarrow> pyval \<Rightarrow> int \<Rightarrow> py_error + (string \<rightharpoonup> pyval)" where
  "dcf_try e growth_rate terminal_growth years =
     py_bind (current_fcff e) (\<lambda>fcff.
     py_bind (current_wacc e) (\<lambda>wacc.
     py_bind (project_fcff fcff growth_rate [1..<nat (years + 1)]) (\<lambda>fcff_projections.
     py_bind (terminal_value fcff_projections wacc terminal_growth) (\<lambda>terminal.
     py_bind (enterprise_value fcff_projections terminal wacc years) (\<lambda>enterprise.
     py_bind (py_sub (dict_get (info e) ''totalDebt'' (Num 0)) (dict_get (info e) ''cash'' (Num 0)))
       (\<lambda>net_debt.
     py_bind (py_sub enterprise net_debt) (\<lambda>equity_value.
     let shares = dict_get (info e) ''sharesOutstanding'' (Num 1) in
     py_bind (py_div equity_value shares) (\<lambda>intrinsic_value.
     py_bind (py_sub intrinsic_value (dict_get (info e) ''currentPrice'' (Num 0))) (\<lambda>gap.
     py_bind (py_div gap intrinsic_value) (\<lambda>relative.
     py_bind (py_mul relative (Num 100)) (\<lambda>margin_of_safety.
     Inr [''intrinsic_value'' \<mapsto> intrinsic_value,
          ''enterprise_value'' \<mapsto> enterprise,
          ''equity_value'' \<mapsto> equity_value,
          ''current_fcff'' \<mapsto> fcff,
          ''wacc'' \<mapsto> wacc,
          ''margin_of_safety'' \<mapsto> margin_of_safety])))))))))))"

text \<open>Any exception is printed and the result is \<open>None\<close>.\<close>

definition dcf_valuation :: "engine \<Rightarrow> pyval \<Rightarrow> pyval \<Rightarrow> int \<Rightarrow> (string \<rightharpoonup> pyval) option" where
  "dcf_valuation e growth_rate terminal_growth years =
     (case dcf_try e growth_rate terminal_growth years of
        Inr result \<Rightarrow> Some result
      | Inl err \<Rightarrow> None)"

text \<open>
  The snapshot holds no \<open>None\<close> under the four metrics \<open>dcf_valuation\<close> reads after
  the discount rate.
\<close>

definition no_None :: "engine \<Rightarrow> bool" where
  "no_None e =
     (info e ''totalDebt'' \<noteq> Some PyNone \<and> info e ''cash'' \<noteq> Some PyNone
      \<and> info e ''sharesOutstanding'' \<noteq> Some PyNone \<and> info e ''currentPrice'' \<noteq> Some PyNone)"

section \<open>get\_summary\<close>

text \<open>An entry of the summary is a number or a text.\<close>

datatype entry = Val pyval | Txt string

definition numeric :: "(string \<rightharpoonup> pyval) \<Rightarrow> (string \<rightharpoonup> entry)" where
  "numeric d = (\<lambda>k. map_option Val (d k))"

text \<open>A text compared with a number raises \<open>TypeError\<close>.\<close>

fun entry_number :: "entry \<Rightarrow> py_error + pyval" where
  "entry_number (Val v) = Inr v"
| "entry_number (Txt s) = Inl TypeError"

definition recommend :: "(string \<rightharpoonup> entry) \<Rightarrow> string \<Rightarrow> string \<Rightarrow> (string \<rightharpoonup> entry)" where
  "recommend summary label colour =
     summary(''recommendation'' \<mapsto> Txt label, ''recommendation_color'' \<mapsto> Txt colour)"

text \<open>
  The summary before the recommendation: the identity fields, then the entries of the
  DCF result, of the ratios and of the beta, merged in this order. \<open>dcf_valuation\<close> is
  called with its defaults. Its result, when not \<open>None\<close>, has six entries and so counts
  as true in \<open>if dcf_result\<close>.
\<close>

definition merged_summary :: "engine \<Rightarrow> (string \<rightharpoonup> entry)" where
  "merged_summary e =
     (let summary = [''company_name'' \<mapsto> Txt (dict_get (info_text e) ''longName'' ''N/A''),
                     ''sector'' \<mapsto> Txt (dict_get (info_text e) ''sector'' ''N/A''),
                     ''industry'' \<mapsto> Txt (dict_get (info_text e) ''industry'' ''N/A'')];
          summary = (case dcf_valuation e (Num 0.05) (Num 0.03) 5 of
                       Some dcf_result \<Rightarrow> summary ++ numeric dcf_result
                     | None \<Rightarrow> summary);
          summary = summary ++ numeric (calculate_financial_ratios e);
          summary = summary ++ numeric (calculate_beta e)
      in summary)"

text \<open>The chain of comparisons on the discount.\<close>

definition classify :: "(string \<rightharpoonup> entry) \<Rightarrow> pyval \<Rightarrow> py_error + (string \<rightharpoonup> entry)" where
  "classify summary discount =
     py_bind (py_gt discount (Num 20)) (\<lambda>above_20.
     if above_20 then Inr (recommend summary ''COMPRAR'' ''green'') else
     py_bind (py_gt discount (Num 10)) (\<lambda>above_10.
     if above_10 then Inr (recommend summary ''ACUMULAR'' ''lightgreen'') else
     py_bind (py_lt discount (Num (- 20))) (\<lambda>below_20.
     if below_20 then Inr (recommend summary ''VENDER'' ''red'') else
     py_bind (py_lt discount (Num (- 10))) (\<lambda>below_10.
     if below_10 then Inr (recommend summary ''REDUZIR'' ''orange'')
     else Inr (recommend summary ''NEUTRO'' ''yellow'')))))"

text \<open>
  The discount of line 283, \<open>((intrinsic_value - current_price) / current_price) * 100\<close>.
  Nothing in \<open>get_summary\<close> catches an exception of the recommendation block. With a
  zero current price the division raises when the intrinsic value is a plain Python
  float, and \<open>get_summary\<close> then raises and returns no summary; when the intrinsic value
  is a \<open>numpy.float64\<close> the quotient is an infinity or NaN and the block goes on.
\<close>

definition summary_discount :: "pyval \<Rightarrow> pyval \<Rightarrow> py_error + pyval" where
  "summary_discount intrinsic_value current_price =
     py_bind (py_sub intrinsic_value current_price) (\<lambda>gap.
     py_bind (py_div gap current_price) (\<lambda>relative.
     py_mul relative (Num 100)))"

definition get_summary :: "engine \<Rightarrow> py_error + (string \<rightharpoonup> entry)" where
  "get_summary e =
     (let summary = merged_summary e;
          current_price = dict_get (info e) ''currentPrice'' (Num 0)
      in
      py_bind (entry_number (dict_get summary ''intrinsic_value'' (Val (Num 0)))) (\<lambda>intrinsic_value.
      py_bind (py_gt intrinsic_value (Num 0)) (\<lambda>positive.
      if positive then
        py_bind (summary_discount intrinsic_value current_price) (\<lambda>discount.
        classify (summary(''discount'' \<mapsto> Val discount)) discount)
      else Inr summary)))"

text \<open>
  The discount and the recommendation table as the specification words them, on floats
  (the arithmetic and the comparisons of IEEE 754, false on NaN) and on the labels the
  source writes: BUY is \<open>COMPRAR\<close>, ACCUMULATE is \<open>ACUMULAR\<close>, SELL is \<open>VENDER\<close>,
  REDUCE is \<open>REDUZIR\<close>, NEUTRAL is \<open>NEUTRO\<close>.
\<close>

definition spec_discount :: "np_float \<Rightarrow> np_float \<Rightarrow> np_float" where
  "spec_discount intrinsic_value current_price =
     np_mul (np_div (np_sub intrinsic_value current_price) current_price) (Fin 100)"

definition np_le :: "np_float \<Rightarrow> np_float \<Rightarrow> bool" where
  "np_le x y = (x \<noteq> NotANumber \<and> y \<noteq> NotANumber \<and> (np_less x y \<or> x = y))"

definition spec_recommendation :: "np_float \<Rightarrow> string" where
  "spec_recommendation discount =
     (if np_less (Fin 20) discount then ''COMPRAR''
      else if np_less (Fin 10) discount \<and> np_le discount (Fin 20) then ''ACUMULAR''
      else if np_less discount (Fin (- 20)) then ''VENDER''
      else if np_le (Fin (- 20)) discount \<and> np_less discount (Fin (- 10)) then ''REDUZIR''
      else ''NEUTRO'')"

section \<open>The weights with the rounding of floats\<close>

text \<open>
  Python's \<open>float\<close> is IEEE 754 binary64: 53 significant bits, rounding to nearest, ties
  to even. \<open>binary64 x\<close> is the float nearest to the real \<open>x\<close>; the exponent is left
  unbounded, so overflow and subnormal numbers are not modelled.
\<close>

definition round_even :: "real \<Rightarrow> int" where
  "round_even r =
     (let f = \<lfloor>r\<rfloor> in
      if r - of_int f < 1 / 2 then f
      else if 1 / 2 < r - of_int f then f + 1
      else if even f then f else f + 1)"

definition binary64 :: "real \<Rightarrow> real" where
  "binary64 x =
     (if x = 0 then 0
      else let ulp = 2 powr (of_int \<lfloor>log 2 \<bar>x\<bar>\<rfloor> - 52)
           in of_int (round_even (x / ulp)) * ulp)"

definition rounded :: "py_error + pyval \<Rightarrow> py_error + pyval" where
  "rounded r = (case r of Inr (Num x) \<Rightarrow> Inr (Num (binary64 x)) | other \<Rightarrow> other)"

text \<open>
  The capital structure and the weights of \<open>calculate_wacc\<close> once more, each operation
  followed by its rounding. With \<open>ints\<close> the two metrics are Python integers, whose sum
  is exact and whose quotient \<open>/\<close> rounds correctly; otherwise they are floats.
\<close>

definition rounded_weights :: "bool \<Rightarrow> engine \<Rightarrow> py_error + pyval \<times> pyval" where
  "rounded_weights ints e =
     (let market_cap = dict_get (info e) ''marketCap'' (Num 1);
          total_debt = dict_get (info e) ''totalDebt'' (Num 0);
          add = (\<lambda>a b. if ints then py_add a b else rounded (py_add a b))
      in
      py_bind (add market_cap total_debt) (\<lambda>capital.
      py_bind (rounded (py_div market_cap capital)) (\<lambda>equity_weight.
      py_bind (add market_cap total_debt) (\<lambda>capital.
      py_bind (rounded (py_div total_debt capital)) (\<lambda>debt_weight.
      Inr (equity_weight, debt_weight))))))"

section \<open>Engines used as examples\<close>

text \<open>
  An engine with default rates whose snapshot is empty, whose regression failed (beta 1)
  and whose latest cash flows are 150 from operations and -50 of capital expenditure,
  held as Python floats: its current FCFF is 100 and its WACC is 0.09.
\<close>

definition bare_engine :: engine where
  "bare_engine =
     \<lparr>risk_free_rate = Num 0.045, market_return = Num 0.09,
      info = Map.empty, info_text = Map.empty,
      cash_flow = [''Operating Cash Flow'' \<mapsto> [Num 150], ''Capital Expenditure'' \<mapsto> [Num (- 50)]],
      regression = None\<rparr>"

definition with_info :: "(string \<rightharpoonup> pyval) \<Rightarrow> engine" where
  "with_info metrics = bare_engine\<lparr>info := metrics\<rparr>"

text \<open>The same engine with a float64 cash-flow statement, and snapshots for it.\<close>

definition float64_engine :: engine where
  "float64_engine =
     bare_engine\<lparr>cash_flow := [''Operating Cash Flow'' \<mapsto> [Np (Fin 150)],
                                ''Capital Expenditure'' \<mapsto> [Np (Fin (- 50))]]\<rparr>"

definition float64_with :: "(string \<rightharpoonup> pyval) \<Rightarrow> engine" where
  "float64_with metrics = float64_engine\<lparr>info := metrics\<rparr>"

definition float64_priced :: "real \<Rightarrow> engine" where
  "float64_priced c = float64_with [''currentPrice'' \<mapsto> Num c]"

text \<open>A float64 statement whose capital expenditure consumes the whole operating cash flow.\<close>

definition idle_engine :: engine where
  "idle_engine =
     bare_engine\<lparr>cash_flow := [''Operating Cash Flow'' \<mapsto> [Np (Fin 50)],
                                ''Capital Expenditure'' \<mapsto> [Np (Fin (- 50))]]\<rparr>"

text \<open>Snapshots for the cost of debt: with debt, with a zero debt, with no debt entry.\<close>

definition levered :: engine where
  "levered = with_info [''interestExpense'' \<mapsto> Num 5, ''totalDebt'' \<mapsto> Num 100, ''marketCap'' \<mapsto> Num 900]"

definition debt_free :: engine where
  "debt_free = with_info [''interestExpense'' \<mapsto> Num 5, ''totalDebt'' \<mapsto> Num 0, ''marketCap'' \<mapsto> Num 900]"

definition interest_only :: engine where
  "interest_only = with_info [''interestExpense'' \<mapsto> Num 5]"

text \<open>A snapshot with the six fractions behind the percentage ratios.\<close>

definition profitable :: engine where
  "profitable =
     with_info [''returnOnEquity'' \<mapsto> Num 0.15, ''returnOnAssets'' \<mapsto> Num 0.08,
                ''grossMargins'' \<mapsto> Num 0.4, ''operatingMargins'' \<mapsto> Num 0.2,
                ''profitMargins'' \<mapsto> Num 0.1, ''payoutRatio'' \<mapsto> Num 0.5]"

text \<open>The bare engine with a current price, and with no cash-flow statement rows.\<close>

definition priced :: "real \<Rightarrow> engine" where
  "priced c = with_info [''currentPrice'' \<mapsto> Num c]"

definition no_statements :: engine where
  "no_statements = bare_engine\<lparr>cash_flow := Map.empty\<rparr>"

text \<open>The colour \<open>get_summary\<close> stores with each label.\<close>

definition colour_of :: "string \<Rightarrow> string" where
  "colour_of label =
     (if label = ''COMPRAR'' then ''green''
      else if label = ''ACUMULAR'' then ''lightgreen''
      else if label = ''VENDER'' then ''red''
      else if label = ''REDUZIR'' then ''orange''
      else ''yellow'')"

text \<open>A snapshot whose market capitalisation and debt have opposite signs and the sum 7.\<close>

definition mixed_signs :: engine where
  "mixed_signs =
     with_info [''marketCap'' \<mapsto> Num 7881299347898371, ''totalDebt'' \<mapsto> Num (- 7881299347898364)]"

section \<open>Basic facts\<close>

lemma py_bind_Inl [simp]: "py_bind (Inl err) f = Inl err"
  by (simp add: py_bind_def)

lemma py_bind_Inr [simp]: "py_bind (Inr v) f = f v"
  by (simp add: py_bind_def)

lemma py_bind_eq_Inr: "py_bind r f = Inr y \<longleftrightarrow> (\<exists>v. r = Inr v \<and> f v = Inr y)"
  by (cases r) simp_all

lemma np_div_one: "np_div x (Fin 1) = x"
  by (cases x) simp_all

lemma np_div_zero_cases: "np_div x (Fin 0) \<in> {PosInf, NegInf, NotANumber}"
  by (cases x) simp_all

lemma py_div_by_zero:
  "py_div a (Num 0) = Inr v \<Longrightarrow> \<exists>x. a = Np x \<and> v = Np (np_div x (Fin 0))"
  by (cases a) simp_all

lemma py_div_one: "a \<noteq> PyNone \<Longrightarrow> py_div a (Num 1) = Inr a"
  by (cases a) (simp_all add: np_div_one)

lemma py_sub_not_None: "py_sub a b = Inr v \<Longrightarrow> v \<noteq> PyNone"
  by (cases a; cases b) auto

lemma dcf_valuation_None: "dcf_valuation e g t y = None \<longleftrightarrow> (\<forall>r. dcf_try e g t y \<noteq> Inr r)"
  by (cases "dcf_try e g t y") (simp_all add: dcf_valuation_def)

lemma dcf_valuation_Some: "dcf_valuation e g t y = Some r \<longleftrightarrow> dcf_try e g t y = Inr r"
  by (cases "dcf_try e g t y") (simp_all add: dcf_valuation_def)

lemma py_div_Num_result:
  "py_div a (Num b) = Inr (Num v) \<Longrightarrow> \<exists>x. a = Num x \<and> b \<noteq> 0 \<and> v = x / b"
  by (cases a) (auto split: if_splits)

lemma terminal_value_formula:
  assumes "terminal_value ps (Num w) (Num t) = Inr (Num tv)"
  shows "\<exists>tf. terminal_fcff ps (Num t) = Inr (Num tf) \<and> w \<noteq> t \<and> tv = tf / (w - t)"
  using assms
  by (auto simp add: terminal_value_def py_bind_eq_Inr dest!: py_div_Num_result)


subsection \<open>The bare engine\<close>

lemma current_fcff_bare: "current_fcff bare_engine = Inr (Num 100)"
  by (simp add: current_fcff_def statement_latest_def bare_engine_def)

lemma current_wacc_bare: "current_wacc bare_engine = Inr (Num 0.09)"
  by (simp add: current_wacc_def calculate_beta_def dict_item_def calculate_wacc_def
      wacc_try_def bare_engine_def dict_get_def estimate_cost_of_debt_def Let_def)

lemma two_years: "[1..<nat (2 + 1)] = [1, 2]"
  by (simp add: upt_rec)

lemma project_two_years:
  "project_fcff (Num 100) (Num 0.05) [1, 2] = Inr [Num 105, Num 110.25]"
  by (simp add: power2_eq_square)

lemma terminal_fcff_two_years:
  "terminal_fcff [Num 105, Num 110.25] (Num 0.03) = Inr (Num 113.5575)"
  by (simp add: terminal_fcff_def py_last_def)

lemma terminal_value_two_years:
  "terminal_value [Num 105, Num 110.25] (Num 0.09) (Num 0.03) = Inr (Num 1892.625)"
  unfolding terminal_value_def terminal_fcff_two_years by simp

lemma enterprise_value_two_years:
  "enterprise_value [Num 105, Num 110.25] (Num 1892.625) (Num 0.09) 2 = Inr (Num (194250 / 109))"
  by (simp add: enterprise_value_def power2_eq_square)

lemma dcf_bare_two_years:
  "dcf_try bare_engine (Num 0.05) (Num 0.03) 2 =
     Inr [''intrinsic_value'' \<mapsto> Num (194250 / 109),
          ''enterprise_value'' \<mapsto> Num (194250 / 109),
          ''equity_value'' \<mapsto> Num (194250 / 109),
          ''current_fcff'' \<mapsto> Num 100,
          ''wacc'' \<mapsto> Num 0.09,
          ''margin_of_safety'' \<mapsto> Num 100]"
  unfolding dcf_try_def current_wacc_bare current_fcff_bare py_bind_Inr two_years
    project_two_years terminal_value_two_years enterprise_value_two_years
  by (simp add: bare_engine_def dict_get_def)





section \<open>The valuation from a float64 statement\<close>

text \<open>
  Once the current FCFF is a \<open>numpy.float64\<close>, no operation of the valuation raises but
  on an operand \<open>None\<close>: \<open>dcf_valuation\<close> returns a result, whose values may be
  infinities or NaN.
\<close>

lemma py_add_numpy:
  "b \<noteq> PyNone \<Longrightarrow> py_add (Np x) b = Inr (Np (np_add x (as_np b)))"
  "a \<noteq> PyNone \<Longrightarrow> py_add a (Np y) = Inr (Np (np_add (as_np a) y))"
  by (cases b; simp) (cases a; simp)

lemma py_sub_numpy: "b \<noteq> PyNone \<Longrightarrow> py_sub (Np x) b = Inr (Np (np_sub x (as_np b)))"
  by (cases b) simp_all

lemma py_mul_numpy: "b \<noteq> PyNone \<Longrightarrow> py_mul (Np x) b = Inr (Np (np_mul x (as_np b)))"
  by (cases b) simp_all

lemma py_div_numpy: "b \<noteq> PyNone \<Longrightarrow> py_div (Np x) b = Inr (Np (np_div x (as_np b)))"
  by (cases b) simp_all

lemma py_add_total: "a \<noteq> PyNone \<Longrightarrow> b \<noteq> PyNone \<Longrightarrow> \<exists>v. py_add a b = Inr v \<and> v \<noteq> PyNone"
  by (cases a; cases b) simp_all

lemma py_sub_total: "a \<noteq> PyNone \<Longrightarrow> b \<noteq> PyNone \<Longrightarrow> \<exists>v. py_sub a b = Inr v \<and> v \<noteq> PyNone"
  by (cases a; cases b) simp_all

lemma py_pow_total: "a \<noteq> PyNone \<Longrightarrow> \<exists>v. py_pow a n = Inr v \<and> v \<noteq> PyNone"
  by (cases a) simp_all

lemma project_numpy:
  assumes "g \<noteq> PyNone"
  shows "\<exists>ps. project_fcff (Np x) g ys = Inr ps \<and> length ps = length ys
           \<and> (\<forall>p \<in> set ps. is_numpy p)"
proof (induction ys)
  case Nil
  show ?case
    by simp
next
  case (Cons year later)
  from py_add_total [of "Num 1" g] assms obtain base
    where base: "py_add (Num 1) g = Inr base" "base \<noteq> PyNone"
    by auto
  from py_pow_total [OF base(2)] obtain factor
    where factor: "py_pow base year = Inr factor" "factor \<noteq> PyNone"
    by blast
  from Cons.IH obtain rest where rest: "project_fcff (Np x) g later = Inr rest"
    "length rest = length later" "\<forall>p \<in> set rest. is_numpy p"
    by blast
  from base(1) factor rest show ?case
    by (simp add: py_mul_numpy)
qed

lemma terminal_value_numpy:
  assumes "ps \<noteq> []" "\<forall>p \<in> set ps. is_numpy p" "w \<noteq> PyNone" "t \<noteq> PyNone"
  shows "\<exists>y. terminal_value ps w t = Inr (Np y)"
proof -
  from assms(1,2) obtain f where f: "last ps = Np f"
    by (cases "last ps") (use last_in_set [OF assms(1)] in force)+
  from py_add_total [of "Num 1" t] assms(4) obtain growth
    where growth: "py_add (Num 1) t = Inr growth" "growth \<noteq> PyNone"
    by auto
  from py_sub_total [OF assms(3,4)] obtain spread
    where spread: "py_sub w t = Inr spread" "spread \<noteq> PyNone"
    by blast
  from assms(1) f growth spread show ?thesis
    by (simp add: terminal_value_def terminal_fcff_def py_last_def py_mul_numpy py_div_numpy)
qed

lemma discount_all_numpy:
  assumes "w \<noteq> PyNone" "\<forall>p \<in> set ps. is_numpy p"
  shows "\<exists>pvs. discount_all w i ps = Inr pvs \<and> (\<forall>p \<in> set pvs. is_numpy p)"
  using assms(2)
proof (induction ps arbitrary: i)
  case Nil
  show ?case
    by simp
next
  case (Cons p later)
  from Cons.prems obtain f where f: "p = Np f"
    by (cases p) simp_all
  from py_add_total [of "Num 1" w] assms(1) obtain base
    where base: "py_add (Num 1) w = Inr base" "base \<noteq> PyNone"
    by auto
  from py_pow_total [OF base(2)] obtain factor
    where factor: "py_pow base (i + 1) = Inr factor" "factor \<noteq> PyNone"
    by blast
  from Cons.IH [of "i + 1"] Cons.prems obtain rest
    where rest: "discount_all w (i + 1) later = Inr rest" "\<forall>p \<in> set rest. is_numpy p"
    by auto
  from f base(1) factor rest show ?case
    by (simp add: py_div_numpy)
qed

lemma py_sum_numpy:
  assumes "\<forall>p \<in> set xs. is_numpy p" "acc \<noteq> PyNone"
  shows "\<exists>v. py_sum acc xs = Inr v \<and> v \<noteq> PyNone"
  using assms
proof (induction xs arbitrary: acc)
  case Nil
  then show ?case
    by simp
next
  case (Cons p later)
  from Cons.prems(1) obtain f where f: "p = Np f"
    by (cases p) simp_all
  from Cons.IH [of "Np (np_add (as_np acc) f)"] Cons.prems f show ?case
    by (simp add: py_add_numpy)
qed

lemma enterprise_value_numpy:
  assumes "\<forall>p \<in> set ps. is_numpy p" "w \<noteq> PyNone"
  shows "\<exists>y. enterprise_value ps (Np tv) w years = Inr (Np y)"
proof -
  from discount_all_numpy [OF assms(2,1)] obtain pvs
    where pvs: "discount_all w 0 ps = Inr pvs" "\<forall>p \<in> set pvs. is_numpy p"
    by blast
  from py_add_total [of "Num 1" w] assms(2) obtain base
    where base: "py_add (Num 1) w = Inr base" "base \<noteq> PyNone"
    by auto
  from py_pow_total [OF base(2)] obtain factor
    where factor: "py_pow base (nat years) = Inr factor" "factor \<noteq> PyNone"
    by blast
  from py_sum_numpy [OF pvs(2), of "Num 0"] obtain total
    where total: "py_sum (Num 0) pvs = Inr total" "total \<noteq> PyNone"
    by auto
  from pvs(1) base(1) factor total show ?thesis
    by (simp add: enterprise_value_def py_div_numpy py_add_numpy)
qed

lemma dict_get_not_None:
  "info e k \<noteq> Some PyNone \<Longrightarrow> dflt \<noteq> PyNone \<Longrightarrow> dict_get (info e) k dflt \<noteq> PyNone"
  by (auto simp add: dict_get_def split: option.splits)

lemma py_add_not_None: "py_add a b = Inr v \<Longrightarrow> v \<noteq> PyNone"
  by (cases a; cases b) auto

lemma current_wacc_total: "\<exists>w. current_wacc e = Inr w \<and> w \<noteq> PyNone"
proof -
  obtain beta where beta: "dict_item (calculate_beta e) ''beta'' = Inr beta"
    by (cases "regression e") (auto simp add: calculate_beta_def dict_item_def)
  show ?thesis
  proof (cases "wacc_try e beta PyNone (Num 0.34)")
    case (Inl err)
    with beta show ?thesis
      by (simp add: current_wacc_def calculate_wacc_def dict_item_def)
  next
    case (Inr result)
    then obtain equity_part debt_part wacc where "result ''wacc'' = Some wacc"
      "py_add equity_part debt_part = Inr wacc"
      by (auto simp add: wacc_try_def py_bind_eq_Inr Let_def)
    with py_add_not_None [of equity_part debt_part wacc] beta Inr show ?thesis
      by (simp add: current_wacc_def calculate_wacc_def dict_item_def)
  qed
qed

lemma dcf_numpy:
  assumes fcff: "current_fcff e = Inr (Np x)"
    and rates: "g \<noteq> PyNone" "t \<noteq> PyNone" and years: "1 \<le> years"
    and snapshot: "no_None e"
  shows "\<exists>r equity. dcf_valuation e g t years = Some r
           \<and> r ''equity_value'' = Some (Np equity)
           \<and> r ''intrinsic_value'' =
               Some (Np (np_div equity (as_np (dict_get (info e) ''sharesOutstanding'' (Num 1)))))"
proof -
  from current_wacc_total obtain w where wacc: "current_wacc e = Inr w" "w \<noteq> PyNone"
    by blast
  from snapshot have total_debt: "dict_get (info e) ''totalDebt'' (Num 0) \<noteq> PyNone"
    and cash: "dict_get (info e) ''cash'' (Num 0) \<noteq> PyNone"
    and shares: "dict_get (info e) ''sharesOutstanding'' (Num 1) \<noteq> PyNone"
    and price: "dict_get (info e) ''currentPrice'' (Num 0) \<noteq> PyNone"
    by (simp_all add: no_None_def dict_get_not_None)
  from project_numpy [OF rates(1), of x "[1..<nat (years + 1)]"] obtain ps
    where ps: "project_fcff (Np x) g [1..<nat (years + 1)] = Inr ps"
      "length ps = length [1..<nat (years + 1)]" "\<forall>p \<in> set ps. is_numpy p"
    by blast
  from ps(2) years have "ps \<noteq> []"
    by auto
  from terminal_value_numpy [OF this ps(3) wacc(2) rates(2)] obtain tv
    where tv: "terminal_value ps w t = Inr (Np tv)"
    by blast
  from enterprise_value_numpy [OF ps(3) wacc(2)] obtain ev
    where ev: "enterprise_value ps (Np tv) w years = Inr (Np ev)"
    by blast
  from py_sub_total [OF total_debt cash] obtain net_debt
    where net_debt: "py_sub (dict_get (info e) ''totalDebt'' (Num 0))
        (dict_get (info e) ''cash'' (Num 0)) = Inr net_debt" "net_debt \<noteq> PyNone"
    by blast
  from fcff wacc(1) ps(1) tv ev net_debt shares price show ?thesis
    by (simp add: dcf_valuation_Some dcf_try_def Let_def py_sub_numpy py_div_numpy
        py_mul_numpy)
qed


lemma no_None_zero_shares: "no_None (float64_with [''sharesOutstanding'' \<mapsto> Num 0])"
  by (simp add: no_None_def float64_with_def)

section \<open>The worked DCF example\<close>

text \<open>
  C1, as the specification states it, fails: with a current FCFF of 100, a growth rate of
  0.05, two years, a terminal growth of 0.03 and a WACC of 0.09 the enterprise value the
  code computes is 194250/109, about 1782.11, which is not within 0.01 of 1781.97.
\<close>

theorem dcf_example_counterexample:
  "\<exists>r ev. dcf_valuation bare_engine (Num 0.05) (Num 0.03) 2 = Some r
      \<and> r ''current_fcff'' = Some (Num 100)
      \<and> r ''wacc'' = Some (Num 0.09)
      \<and> r ''enterprise_value'' = Some (Num ev)
      \<and> \<not> \<bar>ev - 1781.97\<bar> \<le> 0.01"
proof -
  let ?r = "[''intrinsic_value'' \<mapsto> Num (194250 / 109),
             ''enterprise_value'' \<mapsto> Num (194250 / 109),
             ''equity_value'' \<mapsto> Num (194250 / 109),
             ''current_fcff'' \<mapsto> Num 100,
             ''wacc'' \<mapsto> Num 0.09,
             ''margin_of_safety'' \<mapsto> Num 100]"
  have "dcf_valuation bare_engine (Num 0.05) (Num 0.03) 2 = Some ?r"
    by (simp only: dcf_valuation_Some dcf_bare_two_years)
  moreover have "?r ''current_fcff'' = Some (Num 100)" "?r ''wacc'' = Some (Num 0.09)"
    "?r ''enterprise_value'' = Some (Num (194250 / 109))"
    by simp_all
  moreover have "\<not> \<bar>194250 / 109 - 1781.97\<bar> \<le> (0.01 :: real)"
    by simp
  ultimately show ?thesis
    by blast
qed

text \<open>
  C1, amended: for a current FCFF of 100, a growth rate of 0.05, two years, a terminal
  growth of 0.03 and a WACC of 0.09, the projected flows are 105 and 110.25, the terminal
  FCFF is 113.5575, the terminal value is 1892.625, and the enterprise value (the
  discounted flows plus the terminal value discounted over two years) is within 0.01 of
  1782.11; \<open>dcf_valuation\<close> reports this enterprise value.
\<close>

theorem dcf_example:
  "project_fcff (Num 100) (Num 0.05) [1..<nat (2 + 1)] = Inr [Num 105, Num 110.25]
   \<and> terminal_fcff [Num 105, Num 110.25] (Num 0.03) = Inr (Num 113.5575)
   \<and> terminal_value [Num 105, Num 110.25] (Num 0.09) (Num 0.03) = Inr (Num 1892.625)
   \<and> (\<exists>ev. enterprise_value [Num 105, Num 110.25] (Num 1892.625) (Num 0.09) 2 = Inr (Num ev)
         \<and> \<bar>ev - 1782.11\<bar> \<le> 0.01
         \<and> (\<exists>r. dcf_valuation bare_engine (Num 0.05) (Num 0.03) 2 = Some r
               \<and> r ''current_fcff'' = Some (Num 100)
               \<and> r ''wacc'' = Some (Num 0.09)
               \<and> r ''enterprise_value'' = Some (Num ev)))"
proof -
  let ?r = "[''intrinsic_value'' \<mapsto> Num (194250 / 109),
             ''enterprise_value'' \<mapsto> Num (194250 / 109),
             ''equity_value'' \<mapsto> Num (194250 / 109),
             ''current_fcff'' \<mapsto> Num 100,
             ''wacc'' \<mapsto> Num 0.09,
             ''margin_of_safety'' \<mapsto> Num 100]"
  have "dcf_valuation bare_engine (Num 0.05) (Num 0.03) 2 = Some ?r"
    by (simp only: dcf_valuation_Some dcf_bare_two_years)
  moreover have "?r ''current_fcff'' = Some (Num 100)" "?r ''wacc'' = Some (Num 0.09)"
    "?r ''enterprise_value'' = Some (Num (194250 / 109))"
    by simp_all
  moreover have "\<bar>194250 / 109 - 1782.11\<bar> \<le> (0.01 :: real)"
    by simp
  moreover note enterprise_value_two_years terminal_value_two_years terminal_fcff_two_years
  moreover have "project_fcff (Num 100) (Num 0.05) [1..<nat (2 + 1)] = Inr [Num 105, Num 110.25]"
    by (simp only: two_years project_two_years)
  ultimately show ?thesis
    by blast
qed

section \<open>The WACC fallback\<close>

lemma no_capital_raises:
  "wacc_try (with_info [''marketCap'' \<mapsto> Num 0]) (Num 1) PyNone (Num 0.34) = Inl ZeroDivisionError"
  by (simp add: wacc_try_def with_info_def bare_engine_def dict_get_def estimate_cost_of_debt_def
      Let_def)

text \<open>
  C10: whenever the body of \<open>calculate_wacc\<close> raises, the mapping returned is exactly
  wacc 0.09, cost\_of\_equity 0.10, cost\_of\_debt 0.06: it has these three keys and neither
  equity\_weight nor debt\_weight.
\<close>

theorem calculate_wacc_fallback:
  assumes "wacc_try e beta cost_of_debt tax_rate = Inl err"
  shows "calculate_wacc e beta cost_of_debt tax_rate =
           [''wacc'' \<mapsto> Num 0.09, ''cost_of_equity'' \<mapsto> Num 0.10, ''cost_of_debt'' \<mapsto> Num 0.06]
         \<and> dom (calculate_wacc e beta cost_of_debt tax_rate) =
             {''wacc'', ''cost_of_equity'', ''cost_of_debt''}
         \<and> calculate_wacc e beta cost_of_debt tax_rate ''equity_weight'' = None
         \<and> calculate_wacc e beta cost_of_debt tax_rate ''debt_weight'' = None"
  using assms by (auto simp add: calculate_wacc_def)

theorem calculate_wacc_fallback_witness:
  "wacc_try (with_info [''marketCap'' \<mapsto> Num 0]) (Num 1) PyNone (Num 0.34) = Inl ZeroDivisionError
   \<and> calculate_wacc (with_info [''marketCap'' \<mapsto> Num 0]) (Num 1) PyNone (Num 0.34) =
       [''wacc'' \<mapsto> Num 0.09, ''cost_of_equity'' \<mapsto> Num 0.10, ''cost_of_debt'' \<mapsto> Num 0.06]
   \<and> calculate_wacc (with_info [''marketCap'' \<mapsto> Num 0]) (Num 1) PyNone (Num 0.34) ''equity_weight'' = None
   \<and> calculate_wacc (with_info [''marketCap'' \<mapsto> Num 0]) (Num 1) PyNone (Num 0.34) ''debt_weight'' = None"
  using calculate_wacc_fallback [OF no_capital_raises] no_capital_raises by blast

section \<open>The terminal value when the WACC does not exceed the terminal growth\<close>








lemma current_fcff_float64: "current_fcff (float64_with metrics) = Inr (Np (Fin 100))"
  by (simp add: current_fcff_def statement_latest_def float64_with_def float64_engine_def
      bare_engine_def)

lemma current_wacc_float64: "current_wacc float64_engine = Inr (Num 0.09)"
  by (simp add: current_wacc_def calculate_beta_def dict_item_def calculate_wacc_def
      wacc_try_def float64_engine_def bare_engine_def dict_get_def estimate_cost_of_debt_def
      Let_def)

lemma current_fcff_float64_engine: "current_fcff float64_engine = Inr (Np (Fin 100))"
  by (simp add: current_fcff_def statement_latest_def float64_engine_def bare_engine_def)

lemma project_two_years_float64:
  "project_fcff (Np (Fin 100)) (Num 0.05) [1, 2] = Inr [Np (Fin 105), Np (Fin 110.25)]"
  by (simp add: power2_eq_square)







section \<open>The share count\<close>

lemma current_wacc_zero_shares:
  "current_wacc (float64_with [''sharesOutstanding'' \<mapsto> Num 0]) = Inr (Num 0.09)"
  by (simp add: current_wacc_def calculate_beta_def dict_item_def calculate_wacc_def
      wacc_try_def float64_with_def float64_engine_def bare_engine_def dict_get_def
      estimate_cost_of_debt_def Let_def)

lemma terminal_value_float64:
  "terminal_value [Np (Fin 105), Np (Fin 110.25)] (Num 0.09) (Num 0.03) = Inr (Np (Fin 1892.625))"
  by (simp add: terminal_value_def terminal_fcff_def py_last_def np_sub_def)

lemma enterprise_value_float64:
  "enterprise_value [Np (Fin 105), Np (Fin 110.25)] (Np (Fin 1892.625)) (Num 0.09) 2 =
     Inr (Np (Fin (194250 / 109)))"
  by (simp add: enterprise_value_def power2_eq_square)

lemma dcf_float64_zero_shares:
  "dcf_try (float64_with [''sharesOutstanding'' \<mapsto> Num 0]) (Num 0.05) (Num 0.03) 2 =
     Inr [''intrinsic_value'' \<mapsto> Np PosInf,
          ''enterprise_value'' \<mapsto> Np (Fin (194250 / 109)),
          ''equity_value'' \<mapsto> Np (Fin (194250 / 109)),
          ''current_fcff'' \<mapsto> Np (Fin 100),
          ''wacc'' \<mapsto> Num 0.09,
          ''margin_of_safety'' \<mapsto> Np NotANumber]"
  unfolding dcf_try_def current_wacc_zero_shares current_fcff_float64 py_bind_Inr two_years
    project_two_years_float64 terminal_value_float64 enterprise_value_float64
  by (simp add: float64_with_def float64_engine_def bare_engine_def dict_get_def np_sub_def)

lemma current_fcff_with_info: "current_fcff (with_info metrics) = Inr (Num 100)"
  by (simp add: current_fcff_def statement_latest_def with_info_def bare_engine_def)

lemma current_wacc_python_zero_shares:
  "current_wacc (with_info [''sharesOutstanding'' \<mapsto> Num 0]) = Inr (Num 0.09)"
  by (simp add: current_wacc_def calculate_beta_def dict_item_def calculate_wacc_def
      wacc_try_def with_info_def bare_engine_def dict_get_def estimate_cost_of_debt_def Let_def)

lemma dcf_python_zero_shares:
  "dcf_try (with_info [''sharesOutstanding'' \<mapsto> Num 0]) (Num 0.05) (Num 0.03) 2 =
     Inl ZeroDivisionError"
  unfolding dcf_try_def current_wacc_python_zero_shares current_fcff_with_info py_bind_Inr
    two_years project_two_years terminal_value_two_years enterprise_value_two_years
  by (simp add: with_info_def bare_engine_def dict_get_def)

text \<open>
  C3, as the specification states it, fails: the bare engine has no \<open>sharesOutstanding\<close>
  and \<open>dcf_valuation\<close> returns an intrinsic value per share, the equity value divided by
  the substituted share count 1.
\<close>

theorem missing_shares_counterexample:
  "info bare_engine ''sharesOutstanding'' = None
   \<and> (\<exists>r x. dcf_valuation bare_engine (Num 0.05) (Num 0.03) 2 = Some r
         \<and> r ''equity_value'' = Some (Num x)
         \<and> r ''intrinsic_value'' = Some (Num (x / 1)))"
proof -
  let ?r = "[''intrinsic_value'' \<mapsto> Num (194250 / 109),
             ''enterprise_value'' \<mapsto> Num (194250 / 109),
             ''equity_value'' \<mapsto> Num (194250 / 109),
             ''current_fcff'' \<mapsto> Num 100,
             ''wacc'' \<mapsto> Num 0.09,
             ''margin_of_safety'' \<mapsto> Num 100]"
  have "dcf_valuation bare_engine (Num 0.05) (Num 0.03) 2 = Some ?r"
    by (simp only: dcf_valuation_Some dcf_bare_two_years)
  moreover have "?r ''equity_value'' = Some (Num (194250 / 109))"
    "?r ''intrinsic_value'' = Some (Num ((194250 / 109) / 1))"
    by simp_all
  moreover have "info bare_engine ''sharesOutstanding'' = None"
    by (simp add: bare_engine_def)
  ultimately show ?thesis
    by blast
qed

text \<open>
  C3, amended: where \<open>sharesOutstanding\<close> is missing, the share count 1 is substituted:
  every result returned has as intrinsic value per share its equity value divided by 1.
  Where it is zero, the equity value is divided by zero: \<open>dcf_valuation\<close> returns a
  result only when the equity value is a \<open>numpy.float64\<close>, as with a float64 cash-flow
  statement, and the intrinsic value per share is then an infinity or NaN; an equity
  value that is a plain Python float makes the division raise, and the DCF result is
  reported as unavailable. With a \<open>numpy.float64\<close> current FCFF a result is returned,
  for at least one year of projection and a snapshot and rates that hold no \<open>None\<close>.
\<close>

theorem shares_outstanding_default:
  "(info e ''sharesOutstanding'' = None \<longrightarrow>
        (\<forall>r. dcf_valuation e growth_rate terminal_growth years = Some r \<longrightarrow>
           (\<exists>equity intrinsic. r ''equity_value'' = Some equity
              \<and> py_div equity (Num 1) = Inr intrinsic
              \<and> r ''intrinsic_value'' = Some intrinsic
              \<and> intrinsic = equity)))
   \<and> (info e ''sharesOutstanding'' = Some (Num 0) \<longrightarrow>
        (\<forall>r. dcf_valuation e growth_rate terminal_growth years = Some r \<longrightarrow>
           (\<exists>x. r ''equity_value'' = Some (Np x)
              \<and> r ''intrinsic_value'' = Some (Np (np_div x (Fin 0)))
              \<and> np_div x (Fin 0) \<in> {PosInf, NegInf, NotANumber})))
   \<and> (info e ''sharesOutstanding'' = Some (Num 0) \<longrightarrow>
        (\<forall>x. current_fcff e = Inr (Np x) \<longrightarrow> growth_rate \<noteq> PyNone \<longrightarrow> terminal_growth \<noteq> PyNone
           \<longrightarrow> 1 \<le> years \<longrightarrow> no_None e
           \<longrightarrow> (\<exists>r. dcf_valuation e growth_rate terminal_growth years = Some r)))"
proof (intro conjI impI allI)
  fix r
  assume "info e ''sharesOutstanding'' = None"
    and "dcf_valuation e growth_rate terminal_growth years = Some r"
  then show "\<exists>equity intrinsic. r ''equity_value'' = Some equity
              \<and> py_div equity (Num 1) = Inr intrinsic
              \<and> r ''intrinsic_value'' = Some intrinsic
              \<and> intrinsic = equity"
    by (auto simp add: dcf_valuation_Some dcf_try_def py_bind_eq_Inr dict_get_def Let_def
        py_div_one dest!: py_sub_not_None)
next
  fix r
  assume "info e ''sharesOutstanding'' = Some (Num 0)"
    and "dcf_valuation e growth_rate terminal_growth years = Some r"
  then obtain equity intrinsic where r: "r ''equity_value'' = Some equity"
    "r ''intrinsic_value'' = Some intrinsic" "py_div equity (Num 0) = Inr intrinsic"
    by (auto simp add: dcf_valuation_Some dcf_try_def py_bind_eq_Inr dict_get_def Let_def)
  from py_div_by_zero [OF r(3)] r(1,2) np_div_zero_cases
  show "\<exists>x. r ''equity_value'' = Some (Np x)
              \<and> r ''intrinsic_value'' = Some (Np (np_div x (Fin 0)))
              \<and> np_div x (Fin 0) \<in> {PosInf, NegInf, NotANumber}"
    by blast
next
  fix x
  assume "current_fcff e = Inr (Np x)" "growth_rate \<noteq> PyNone" "terminal_growth \<noteq> PyNone"
    "1 \<le> years" "no_None e"
  from dcf_numpy [OF this]
  show "\<exists>r. dcf_valuation e growth_rate terminal_growth years = Some r"
    by blast
qed

theorem shares_outstanding_default_witness:
  "info bare_engine ''sharesOutstanding'' = None
   \<and> (\<exists>r equity. dcf_valuation bare_engine (Num 0.05) (Num 0.03) 2 = Some r
         \<and> r ''equity_value'' = Some equity
         \<and> py_div equity (Num 1) = Inr equity
         \<and> r ''intrinsic_value'' = Some equity)
   \<and> info (float64_with [''sharesOutstanding'' \<mapsto> Num 0]) ''sharesOutstanding'' = Some (Num 0)
   \<and> (\<exists>r x. dcf_valuation (float64_with [''sharesOutstanding'' \<mapsto> Num 0]) (Num 0.05) (Num 0.03) 2
               = Some r
         \<and> r ''equity_value'' = Some (Np x)
         \<and> r ''intrinsic_value'' = Some (Np (np_div x (Fin 0)))
         \<and> r ''intrinsic_value'' = Some (Np PosInf))
   \<and> info (with_info [''sharesOutstanding'' \<mapsto> Num 0]) ''sharesOutstanding'' = Some (Num 0)
   \<and> dcf_valuation (with_info [''sharesOutstanding'' \<mapsto> Num 0]) (Num 0.05) (Num 0.03) 2 = None"
proof -
  have missing: "info bare_engine ''sharesOutstanding'' = None"
    by (simp add: bare_engine_def)
  have zero: "info (float64_with [''sharesOutstanding'' \<mapsto> Num 0]) ''sharesOutstanding'' = Some (Num 0)"
    by (simp add: float64_with_def)
  have zero': "info (with_info [''sharesOutstanding'' \<mapsto> Num 0]) ''sharesOutstanding'' = Some (Num 0)"
    by (simp add: with_info_def)
  obtain r where r: "dcf_valuation bare_engine (Num 0.05) (Num 0.03) 2 = Some r"
    by (simp only: dcf_valuation_Some dcf_bare_two_years)
  from shares_outstanding_default [of "float64_with [''sharesOutstanding'' \<mapsto> Num 0]"
      "Num 0.05" "Num 0.03" 2, THEN conjunct2, THEN conjunct2, THEN mp, OF zero, rule_format,
      OF current_fcff_float64 _ _ _ no_None_zero_shares]
  obtain r' where r'1: "dcf_valuation (float64_with [''sharesOutstanding'' \<mapsto> Num 0])
      (Num 0.05) (Num 0.03) 2 = Some r'"
    by auto
  then have "r' ''intrinsic_value'' = Some (Np PosInf)"
    unfolding dcf_valuation_Some dcf_float64_zero_shares by auto
  note r' = r'1 this
  from shares_outstanding_default [of bare_engine "Num 0.05" "Num 0.03" 2] missing r
  have "\<exists>equity. r ''equity_value'' = Some equity \<and> py_div equity (Num 1) = Inr equity
          \<and> r ''intrinsic_value'' = Some equity"
    by blast
  moreover
  from shares_outstanding_default [of "float64_with [''sharesOutstanding'' \<mapsto> Num 0]"
      "Num 0.05" "Num 0.03" 2] zero r'(1)
  have "\<exists>x. r' ''equity_value'' = Some (Np x)
          \<and> r' ''intrinsic_value'' = Some (Np (np_div x (Fin 0)))"
    by blast
  moreover
  have "dcf_valuation (with_info [''sharesOutstanding'' \<mapsto> Num 0]) (Num 0.05) (Num 0.03) 2 = None"
    unfolding dcf_valuation_None dcf_python_zero_shares by simp
  ultimately show ?thesis
    using missing zero zero' r r' by blast
qed

section \<open>The estimated cost of debt\<close>

lemma wacc_try_cost_of_debt:
  assumes "wacc_try e beta PyNone tax_rate = Inr result"
  shows "\<exists>c. estimate_cost_of_debt e = Inr c \<and> result ''cost_of_debt'' = Some c"
  using assms
  by (auto simp add: wacc_try_def py_bind_eq_Inr Let_def)

lemma calculate_wacc_Inr:
  "wacc_try e beta cost_of_debt tax_rate = Inr result \<Longrightarrow>
   calculate_wacc e beta cost_of_debt tax_rate = result"
  by (simp add: calculate_wacc_def)

lemma estimate_cases:
  assumes "estimate_cost_of_debt e = Inr c"
  shows "case info e ''totalDebt'' of
            None \<Rightarrow> py_div (dict_get (info e) ''interestExpense'' (Num 0)) (Num 1) = Inr c
          | Some PyNone \<Rightarrow> False
          | Some (Num d) \<Rightarrow>
              (if 0 < d then py_div (dict_get (info e) ''interestExpense'' (Num 0)) (Num d) = Inr c
               else c = Num 0.06)
          | Some NaN \<Rightarrow> c = Num 0.06
          | Some (Np x) \<Rightarrow>
              (if np_less (Fin 0) x
               then py_div (dict_get (info e) ''interestExpense'' (Num 0)) (Np x) = Inr c
               else c = Num 0.06)"
  using assms
  by (auto simp add: estimate_cost_of_debt_def Let_def dict_get_def py_bind_eq_Inr
      split: option.splits pyval.splits if_splits)

lemma wacc_try_levered:
  "wacc_try levered (Num 1) PyNone (Num 0.34) =
     Inr [''wacc'' \<mapsto> Num 0.0843, ''cost_of_equity'' \<mapsto> Num 0.09, ''cost_of_debt'' \<mapsto> Num 0.05,
          ''equity_weight'' \<mapsto> Num 0.9, ''debt_weight'' \<mapsto> Num 0.1]"
  by (simp add: wacc_try_def levered_def with_info_def bare_engine_def dict_get_def
      estimate_cost_of_debt_def Let_def)

lemma wacc_try_debt_free:
  "wacc_try debt_free (Num 1) PyNone (Num 0.34) =
     Inr [''wacc'' \<mapsto> Num 0.09, ''cost_of_equity'' \<mapsto> Num 0.09, ''cost_of_debt'' \<mapsto> Num 0.06,
          ''equity_weight'' \<mapsto> Num 1, ''debt_weight'' \<mapsto> Num 0]"
  by (simp add: wacc_try_def debt_free_def with_info_def bare_engine_def dict_get_def
      estimate_cost_of_debt_def Let_def)

lemma wacc_try_interest_only:
  "wacc_try interest_only (Num 1) PyNone (Num 0.34) =
     Inr [''wacc'' \<mapsto> Num 0.09, ''cost_of_equity'' \<mapsto> Num 0.09, ''cost_of_debt'' \<mapsto> Num 5,
          ''equity_weight'' \<mapsto> Num 1, ''debt_weight'' \<mapsto> Num 0]"
  by (simp add: wacc_try_def interest_only_def with_info_def bare_engine_def dict_get_def
      estimate_cost_of_debt_def Let_def)

text \<open>
  C6, as the specification states it, fails where \<open>totalDebt\<close> is unavailable: the
  estimate reads it with the default 1, which is positive, so the cost of debt is the
  interest expense divided by 1. With an interest expense of 5 and no \<open>totalDebt\<close>,
  \<open>calculate_wacc\<close> returns a cost of debt of 5, not 0.06.
\<close>

theorem cost_of_debt_default_counterexample:
  "info interest_only ''totalDebt'' = None
   \<and> calculate_wacc interest_only (Num 1) PyNone (Num 0.34) ''cost_of_debt'' = Some (Num 5)
   \<and> Num 5 \<noteq> Num 0.06"
proof -
  have "info interest_only ''totalDebt'' = None"
    by (simp add: interest_only_def with_info_def)
  moreover have "calculate_wacc interest_only (Num 1) PyNone (Num 0.34) ''cost_of_debt'' = Some (Num 5)"
    unfolding calculate_wacc_Inr [OF wacc_try_interest_only] by simp
  moreover have "Num 5 \<noteq> Num 0.06"
    by simp
  ultimately show ?thesis
    by blast
qed

text \<open>
  C6, amended: when \<open>cost_of_debt\<close> is not supplied and \<open>calculate_wacc\<close> does not fall
  back, the cost of debt it returns is interest\_expense / total\_debt when \<open>totalDebt\<close> is
  present and positive, exactly 0.06 when \<open>totalDebt\<close> is present and zero (or negative,
  or NaN), and interest\_expense / 1 when \<open>totalDebt\<close> is absent; the interest expense is
  0 when absent.
\<close>

theorem cost_of_debt_estimate:
  assumes "wacc_try e beta PyNone tax_rate = Inr result"
  shows "\<exists>c. calculate_wacc e beta PyNone tax_rate ''cost_of_debt'' = Some c \<and>
           (case info e ''totalDebt'' of
              None \<Rightarrow> py_div (dict_get (info e) ''interestExpense'' (Num 0)) (Num 1) = Inr c
            | Some PyNone \<Rightarrow> False
            | Some (Num d) \<Rightarrow>
                (if 0 < d then py_div (dict_get (info e) ''interestExpense'' (Num 0)) (Num d) = Inr c
                 else c = Num 0.06)
            | Some NaN \<Rightarrow> c = Num 0.06
            | Some (Np x) \<Rightarrow>
                (if np_less (Fin 0) x
                 then py_div (dict_get (info e) ''interestExpense'' (Num 0)) (Np x) = Inr c
                 else c = Num 0.06))"
proof -
  from wacc_try_cost_of_debt [OF assms] obtain c
    where c: "estimate_cost_of_debt e = Inr c" "result ''cost_of_debt'' = Some c"
    by blast
  from c(2) assms have "calculate_wacc e beta PyNone tax_rate ''cost_of_debt'' = Some c"
    by (simp add: calculate_wacc_Inr)
  with estimate_cases [OF c(1)] show ?thesis
    by blast
qed

theorem cost_of_debt_estimate_witness:
  "calculate_wacc levered (Num 1) PyNone (Num 0.34) ''cost_of_debt'' = Some (Num (5 / 100))
   \<and> calculate_wacc debt_free (Num 1) PyNone (Num 0.34) ''cost_of_debt'' = Some (Num 0.06)
   \<and> calculate_wacc interest_only (Num 1) PyNone (Num 0.34) ''cost_of_debt'' = Some (Num (5 / 1))"
proof -
  from cost_of_debt_estimate [OF wacc_try_levered]
  have "calculate_wacc levered (Num 1) PyNone (Num 0.34) ''cost_of_debt'' = Some (Num (5 / 100))"
    by (auto simp add: levered_def with_info_def dict_get_def)
  moreover from cost_of_debt_estimate [OF wacc_try_debt_free]
  have "calculate_wacc debt_free (Num 1) PyNone (Num 0.34) ''cost_of_debt'' = Some (Num 0.06)"
    by (auto simp add: debt_free_def with_info_def dict_get_def)
  moreover from cost_of_debt_estimate [OF wacc_try_interest_only]
  have "calculate_wacc interest_only (Num 1) PyNone (Num 0.34) ''cost_of_debt'' = Some (Num (5 / 1))"
    by (auto simp add: interest_only_def with_info_def dict_get_def)
  ultimately show ?thesis
    by blast
qed

section \<open>The capital-structure weights\<close>

text \<open>
  In exact arithmetic the two weights a computed WACC result holds sum to one: they are
  the market capitalisation and the total debt, each divided by their non-zero sum.
\<close>

lemma py_div_Num_Num:
  "py_div a b = Inr (Num q) \<Longrightarrow> \<exists>x y. a = Num x \<and> b = Num y \<and> y \<noteq> 0 \<and> q = x / y"
  by (cases a; cases b) (auto split: if_splits)

lemma weights_exact:
  assumes "wacc_try e beta cost_of_debt tax_rate = Inr result"
    and "result ''equity_weight'' = Some (Num ew)"
    and "result ''debt_weight'' = Some (Num dw)"
  shows "ew + dw = 1"
proof -
  let ?m = "dict_get (info e) ''marketCap'' (Num 1)"
  let ?d = "dict_get (info e) ''totalDebt'' (Num 0)"
  from assms obtain capital where c: "py_add ?m ?d = Inr capital"
    "py_div ?m capital = Inr (Num ew)" "py_div ?d capital = Inr (Num dw)"
    by (auto simp add: wacc_try_def py_bind_eq_Inr Let_def)
  from py_div_Num_Num [OF c(2)] obtain m s
    where m: "?m = Num m" "capital = Num s" "s \<noteq> 0" "ew = m / s"
    by blast
  from py_div_Num_Num [OF c(3)] m(2) obtain d where d: "?d = Num d" "dw = d / s"
    by auto
  from c(1) m(1,2) d(1) have "s = m + d"
    by simp
  with m(3,4) d(2) show ?thesis
    by (simp add: add_divide_distrib [symmetric])
qed

subsection \<open>The error of a rounding\<close>

lemma round_even_error: "\<bar>of_int (round_even r) - r\<bar> \<le> 1 / 2"
  unfolding round_even_def Let_def by (auto simp add: abs_if) linarith+

lemma binary64_error: "\<bar>binary64 x - x\<bar> \<le> \<bar>x\<bar> / 2 ^ 53"
proof (cases "x = 0")
  case True
  then show ?thesis by (simp add: binary64_def)
next
  case False
  define e where "e = \<lfloor>log 2 \<bar>x\<bar>\<rfloor>"
  define ulp :: real where "ulp = 2 powr (of_int e - 52)"
  have ulp_pos: "0 < ulp"
    by (simp add: ulp_def)
  from False have "2 powr (of_int e) \<le> \<bar>x\<bar>"
    using floor_log_eq_powr_iff [of "\<bar>x\<bar>" 2 e] by (simp add: e_def)
  moreover have "ulp = 2 powr (of_int e) / 2 ^ 52"
    by (simp add: ulp_def powr_diff powr_realpow [symmetric])
  ultimately have ulp_le: "ulp / 2 \<le> \<bar>x\<bar> / 2 ^ 53"
    by (simp add: field_simps)
  have "binary64 x = of_int (round_even (x / ulp)) * ulp"
    using False by (simp add: binary64_def Let_def ulp_def e_def)
  then have "\<bar>binary64 x - x\<bar> = \<bar>of_int (round_even (x / ulp)) - x / ulp\<bar> * ulp"
    using ulp_pos by (simp add: abs_mult [symmetric] field_simps del: abs_mult)
  also have "\<dots> \<le> (1 / 2) * ulp"
    using round_even_error [of "x / ulp"] ulp_pos by (intro mult_right_mono) simp_all
  also have "\<dots> \<le> \<bar>x\<bar> / 2 ^ 53"
    using ulp_le by simp
  finally show ?thesis .
qed

lemma binary64_nonneg_bounds:
  assumes "0 \<le> x"
  shows "(1 - 1 / 2 ^ 53) * x \<le> binary64 x" "binary64 x \<le> (1 + 1 / 2 ^ 53) * x"
proof -
  from assms binary64_error [of x] have "\<bar>binary64 x - x\<bar> \<le> x / 2 ^ 53"
    by simp
  then have "x - x / 2 ^ 53 \<le> binary64 x" "binary64 x \<le> x + x / 2 ^ 53"
    by linarith+
  then show "(1 - 1 / 2 ^ 53) * x \<le> binary64 x" "binary64 x \<le> (1 + 1 / 2 ^ 53) * x"
    by (simp_all add: algebra_simps)
qed

lemma unit_roundoff_bounds:
  "(1 + 1 / 2 ^ 53) / (1 - 1 / 2 ^ 53) \<le> 1 + 1 / (10 ^ 9 :: real)"
  "1 - 1 / (10 ^ 9 :: real) \<le> (1 - 1 / 2 ^ 53) / (1 + 1 / 2 ^ 53)"
  by simp_all

text \<open>The two quotients by a capital within one rounding of the sum.\<close>

lemma quotients_near_one:
  assumes m: "0 \<le> m" and d: "0 \<le> d" and pos: "0 < m + d"
    and s_lower: "(1 - 1 / 2 ^ 53) * (m + d) \<le> s" and s_upper: "s \<le> (1 + 1 / 2 ^ 53) * (m + d)"
  shows "s \<noteq> 0 \<and> \<bar>binary64 (m / s) + binary64 (d / s) - 1\<bar> \<le> 1 / 10 ^ 9"
proof -
  define u :: real where "u = 1 / 2 ^ 53"
  have u: "0 < u" "u < 1"
    by (simp_all add: u_def)
  note s_lower = s_lower [folded u_def] and s_upper = s_upper [folded u_def]
  from u pos have "0 < (1 - u) * (m + d)"
    by (intro mult_pos_pos) simp_all
  with s_lower have s_pos: "0 < s"
    by simp
  define t where "t = (m + d) / s"
  have t_upper: "t \<le> 1 / (1 - u)"
  proof -
    from s_lower s_pos u have "(m + d) * (1 - u) \<le> s * 1"
      by (simp add: mult.commute)
    with s_pos u show ?thesis
      unfolding t_def by (simp add: frac_le_eq field_simps)
  qed
  have t_lower: "1 / (1 + u) \<le> t"
  proof -
    from s_upper have "s * 1 \<le> (m + d) * (1 + u)"
      by (simp add: mult.commute)
    with s_pos u show ?thesis
      unfolding t_def by (simp add: frac_le_eq field_simps)
  qed
  define ew where "ew = binary64 (m / s)"
  define dw where "dw = binary64 (d / s)"
  from m s_pos have "0 \<le> m / s" by simp
  from binary64_nonneg_bounds [OF this]
  have ew: "(1 - u) * (m / s) \<le> ew" "ew \<le> (1 + u) * (m / s)"
    by (simp_all add: ew_def u_def)
  from d s_pos have "0 \<le> d / s" by simp
  from binary64_nonneg_bounds [OF this]
  have dw: "(1 - u) * (d / s) \<le> dw" "dw \<le> (1 + u) * (d / s)"
    by (simp_all add: dw_def u_def)
  have split: "m / s + d / s = t"
    by (simp add: t_def add_divide_distrib)
  from ew(1) dw(1) have "(1 - u) * t \<le> ew + dw"
    unfolding split [symmetric] by (simp add: algebra_simps)
  moreover from t_lower u have "(1 - u) * (1 / (1 + u)) \<le> (1 - u) * t"
    by (intro mult_left_mono) simp_all
  ultimately have lower: "(1 - u) / (1 + u) \<le> ew + dw"
    by simp
  from ew(2) dw(2) have "ew + dw \<le> (1 + u) * t"
    unfolding split [symmetric] by (simp add: algebra_simps)
  moreover from t_upper u have "(1 + u) * t \<le> (1 + u) * (1 / (1 - u))"
    by (intro mult_left_mono) simp_all
  ultimately have upper: "ew + dw \<le> (1 + u) / (1 - u)"
    by simp
  from lower unit_roundoff_bounds(2) have "1 - 1 / 10 ^ 9 \<le> ew + dw"
    unfolding u_def by (rule order_trans [rotated])
  moreover from upper unit_roundoff_bounds(1) have "ew + dw \<le> 1 + 1 / 10 ^ 9"
    unfolding u_def by (rule order_trans)
  ultimately have "\<bar>ew + dw - 1\<bar> \<le> 1 / 10 ^ 9"
    by linarith
  with s_pos show ?thesis
    by (simp add: ew_def dw_def)
qed

subsection \<open>The rounding at a snapshot of mixed signs\<close>

lemma binary64_at:
  assumes "2 powr of_int e \<le> \<bar>x\<bar>" "\<bar>x\<bar> < 2 powr (of_int e + 1)"
  shows "binary64 x = of_int (round_even (x / 2 powr (of_int e - 52))) * 2 powr (of_int e - 52)"
proof -
  have "0 < \<bar>x\<bar>"
    by (rule less_le_trans [OF _ assms(1)]) simp
  with assms have "\<lfloor>log 2 \<bar>x\<bar>\<rfloor> = e"
    using floor_log_eq_powr_iff [of "\<bar>x\<bar>" 2 e] by simp
  with \<open>0 < \<bar>x\<bar>\<close> show ?thesis
    by (auto simp add: binary64_def Let_def)
qed

lemma binary64_7: "binary64 7 = 7"
proof -
  have ulp: "2 powr (of_int 2 - 52) = (1 / 2 ^ 50 :: real)"
    by (simp add: powr_neg_numeral)
  have "round_even (7 / (1 / 2 ^ 50)) = 7 * 2 ^ 50"
    by (simp add: round_even_def Let_def)
  with binary64_at [of 2 7] show ?thesis
    unfolding ulp by simp
qed

lemma binary64_equity: "binary64 (7881299347898371 / 7) = 1125899906842624.5"
proof -
  have ulp: "2 powr (of_int 50 - 52) = (1 / 4 :: real)"
    by (simp add: powr_neg_numeral)
  have "round_even (7881299347898371 / 7 / (1 / 4)) = 4503599627370498"
    by (simp add: round_even_def Let_def)
  with binary64_at [of 50 "7881299347898371 / 7"] show ?thesis
    unfolding ulp by simp
qed

lemma binary64_debt: "binary64 (- (7881299347898364 / 7)) = - 1125899906842623.375"
proof -
  have ulp: "2 powr (of_int 49 - 52) = (1 / 8 :: real)"
    by (simp add: powr_neg_numeral)
  have "round_even (- 7881299347898364 / 7 / (1 / 8)) = - 9007199254740987"
    by (simp add: round_even_def Let_def)
  with binary64_at [of 49 "- (7881299347898364 / 7)"] show ?thesis
    unfolding ulp by simp
qed

lemma rounded_weights_mixed:
  "rounded_weights ints mixed_signs =
     Inr (Num 1125899906842624.5, Num (- 1125899906842623.375))"
  by (simp add: rounded_weights_def rounded_def Let_def mixed_signs_def with_info_def dict_get_def
      binary64_7 binary64_equity binary64_debt)

subsection \<open>The sum of the rounded weights\<close>

text \<open>
  C7, as the specification states it, fails on the floats the code computes with: for a
  market capitalisation of 7881299347898371 and a total debt of -7881299347898364, whose
  sum 7 is positive, the two quotients round to 1125899906842624.5 and
  -1125899906842623.375, and these sum to 1.125.
\<close>

theorem rounded_weights_counterexample:
  "info mixed_signs ''marketCap'' = Some (Num 7881299347898371)
   \<and> info mixed_signs ''totalDebt'' = Some (Num (- 7881299347898364))
   \<and> (0 :: real) < 7881299347898371 + (- 7881299347898364)
   \<and> (\<forall>ints. rounded_weights ints mixed_signs =
         Inr (Num 1125899906842624.5, Num (- 1125899906842623.375)))
   \<and> \<not> \<bar>1125899906842624.5 + (- 1125899906842623.375) - 1\<bar> \<le> (1 / 10 ^ 9 :: real)"
  by (simp add: rounded_weights_mixed) (simp add: mixed_signs_def with_info_def)

text \<open>
  C7, amended: for every fundamentals snapshot whose market capitalisation and total debt
  are not negative and have a positive sum, the equity weight and the debt weight computed
  with the rounding of floats sum to 1 within 1e-9 (overflow apart).
\<close>

theorem rounded_weights_sum:
  assumes "dict_get (info e) ''marketCap'' (Num 1) = Num m"
    and "dict_get (info e) ''totalDebt'' (Num 0) = Num d"
    and "0 \<le> m" and "0 \<le> d" and "0 < m + d"
  shows "\<exists>ew dw. rounded_weights ints e = Inr (Num ew, Num dw) \<and> \<bar>ew + dw - 1\<bar> \<le> 1 / 10 ^ 9"
proof (cases ints)
  case True
  have "(1 - 1 / 2 ^ 53) * (m + d) \<le> m + d" "m + d \<le> (1 + 1 / 2 ^ 53) * (m + d)"
    using assms(5) by (simp_all add: algebra_simps)
  from quotients_near_one [OF assms(3,4,5) this] True assms(1,2) show ?thesis
    by (simp add: rounded_weights_def Let_def rounded_def)
next
  case False
  from assms(5) have "0 \<le> m + d"
    by simp
  from quotients_near_one [OF assms(3,4,5) binary64_nonneg_bounds [OF this]] False assms(1,2)
  show ?thesis
    by (simp add: rounded_weights_def Let_def rounded_def)
qed

theorem rounded_weights_sum_witness:
  "dict_get (info levered) ''marketCap'' (Num 1) = Num 900
   \<and> dict_get (info levered) ''totalDebt'' (Num 0) = Num 100
   \<and> (\<exists>ew dw. rounded_weights True levered = Inr (Num ew, Num dw)
         \<and> \<bar>ew + dw - 1\<bar> \<le> 1 / 10 ^ 9)
   \<and> (\<exists>ew dw. rounded_weights False levered = Inr (Num ew, Num dw)
         \<and> \<bar>ew + dw - 1\<bar> \<le> 1 / 10 ^ 9)"
proof -
  have cap: "dict_get (info levered) ''marketCap'' (Num 1) = Num 900"
    and debt: "dict_get (info levered) ''totalDebt'' (Num 0) = Num 100"
    by (simp_all add: levered_def with_info_def dict_get_def)
  from rounded_weights_sum [OF cap debt, of True] rounded_weights_sum [OF cap debt, of False]
  show ?thesis
    using cap debt by simp
qed

section \<open>The percentage ratios\<close>

lemma assign_all_other: "k \<notin> fst ` set as \<Longrightarrow> assign_all as m k = m k"
  by (induction as m rule: assign_all.induct) auto

lemma assign_all_source:
  assumes "assign_all as m k = Some v" "m k = None" "distinct (map fst as)"
  shows "(k, Inr v) \<in> set as"
  using assms
proof (induction as m rule: assign_all.induct)
  case (1 ratios)
  then show ?case by simp
next
  case (2 k' v' rest ratios)
  show ?case
  proof (cases "k = k'")
    case True
    from "2.prems"(3) have "k' \<notin> fst ` set rest"
      by simp
    then have "assign_all rest (ratios(k' \<mapsto> v')) k' = Some v'"
      by (simp add: assign_all_other)
    with "2.prems"(1) True show ?thesis
      by simp
  next
    case False
    from "2.prems"(1) have "assign_all rest (ratios(k' \<mapsto> v')) k = Some v"
      by simp
    moreover from False "2.prems"(2) have "(ratios(k' \<mapsto> v')) k = None"
      by simp
    moreover from "2.prems"(3) have "distinct (map fst rest)"
      by simp
    ultimately have "(k, Inr v) \<in> set rest"
      by (rule "2.IH")
    then show ?thesis
      by simp
  qed
next
  case (3 k' err rest ratios)
  then show ?case by simp
qed

lemma ratio_keys_distinct: "distinct (map fst (ratio_assignments e))"
  by (simp add: ratio_assignments_def)

lemma ratio_source:
  assumes "calculate_financial_ratios e k = Some v"
  shows "(k, Inr v) \<in> set (ratio_assignments e)"
  using assms assign_all_source [of "ratio_assignments e" Map.empty k v] ratio_keys_distinct
  by (simp add: calculate_financial_ratios_def)

lemma percent_value: "info e metric = Some (Num x) \<Longrightarrow> percent e metric = Inr (Num (x * 100))"
  by (simp add: percent_def dict_get_def)

lemma py_mul_total: "a \<noteq> PyNone \<Longrightarrow> \<exists>v. py_mul a (Num 100) = Inr v"
  by (cases a) simp_all

lemma percent_total:
  assumes "info e metric \<noteq> Some PyNone"
  shows "\<exists>v. percent e metric = Inr v"
proof (cases "info e metric")
  case None
  then show ?thesis
    by (simp add: percent_def dict_get_def)
next
  case (Some a)
  with assms have "a \<noteq> PyNone"
    by simp
  from py_mul_total [OF this] Some show ?thesis
    by (simp add: percent_def dict_get_def)
qed

lemma dividend_yield_total: "\<exists>v. dividend_yield e = Inr v"
proof (cases "truthy (dict_get (info e) ''dividendYield'' PyNone)")
  case False
  then show ?thesis
    by (simp add: dividend_yield_def)
next
  case True
  then obtain a where a: "info e ''dividendYield'' = Some a" "a \<noteq> PyNone"
    by (cases "info e ''dividendYield''") (fastforce simp add: dict_get_def)+
  from py_mul_total [OF a(2)] a(1) True show ?thesis
    by (simp add: dividend_yield_def dict_get_def)
qed

text \<open>With none of the six metrics \<open>None\<close>, every assignment of the block is made.\<close>

lemma ratios_complete:
  assumes "\<forall>m \<in> {''returnOnEquity'', ''returnOnAssets'', ''grossMargins'', ''operatingMargins'',
             ''profitMargins'', ''payoutRatio''}. info e m \<noteq> Some PyNone"
  shows "\<exists>roe roa gross operating profit payout.
           percent e ''returnOnEquity'' = Inr roe \<and> percent e ''returnOnAssets'' = Inr roa
         \<and> percent e ''grossMargins'' = Inr gross \<and> percent e ''operatingMargins'' = Inr operating
         \<and> percent e ''profitMargins'' = Inr profit \<and> percent e ''payoutRatio'' = Inr payout
         \<and> calculate_financial_ratios e ''roe'' = Some roe
         \<and> calculate_financial_ratios e ''roa'' = Some roa
         \<and> calculate_financial_ratios e ''gross_margin'' = Some gross
         \<and> calculate_financial_ratios e ''operating_margin'' = Some operating
         \<and> calculate_financial_ratios e ''profit_margin'' = Some profit
         \<and> calculate_financial_ratios e ''payout_ratio'' = Some payout"
proof -
  from assms percent_total obtain roe roa gross operating profit payout
    where p: "percent e ''returnOnEquity'' = Inr roe" "percent e ''returnOnAssets'' = Inr roa"
      "percent e ''grossMargins'' = Inr gross" "percent e ''operatingMargins'' = Inr operating"
      "percent e ''profitMargins'' = Inr profit" "percent e ''payoutRatio'' = Inr payout"
    by (metis insertCI)
  from dividend_yield_total obtain dy where dy: "dividend_yield e = Inr dy"
    by blast
  have "calculate_financial_ratios e ''roe'' = Some roe"
    "calculate_financial_ratios e ''roa'' = Some roa"
    "calculate_financial_ratios e ''gross_margin'' = Some gross"
    "calculate_financial_ratios e ''operating_margin'' = Some operating"
    "calculate_financial_ratios e ''profit_margin'' = Some profit"
    "calculate_financial_ratios e ''payout_ratio'' = Some payout"
    by (simp_all add: calculate_financial_ratios_def ratio_assignments_def p dy)
  with p show ?thesis
    by blast
qed

text \<open>
  C8: where the snapshot holds a number under the metric, each of \<open>roe\<close>, \<open>roa\<close>,
  \<open>gross_margin\<close>, \<open>operating_margin\<close>, \<open>profit_margin\<close> and \<open>payout_ratio\<close> that
  \<open>calculate_financial_ratios\<close> produces is that number times 100; and it is produced
  whenever none of the six metrics is \<open>None\<close>, so for complete fundamentals all six
  ratios are there, each its fraction times 100.
\<close>

theorem percentage_ratios:
  assumes "(key, metric) \<in> {(''roe'', ''returnOnEquity''), (''roa'', ''returnOnAssets''),
             (''gross_margin'', ''grossMargins''), (''operating_margin'', ''operatingMargins''),
             (''profit_margin'', ''profitMargins''), (''payout_ratio'', ''payoutRatio'')}"
    and "info e metric = Some (Num x)"
  shows "(\<forall>v. calculate_financial_ratios e key = Some v \<longrightarrow> v = Num (x * 100))
       \<and> ((\<forall>m \<in> {''returnOnEquity'', ''returnOnAssets'', ''grossMargins'', ''operatingMargins'',
                  ''profitMargins'', ''payoutRatio''}. info e m \<noteq> Some PyNone) \<longrightarrow>
            calculate_financial_ratios e key = Some (Num (x * 100)))"
proof (intro conjI allI impI)
  fix v
  assume "calculate_financial_ratios e key = Some v"
  from ratio_source [OF this] assms(1) have "percent e metric = Inr v"
    by (auto simp add: ratio_assignments_def)
  with percent_value [OF assms(2)] show "v = Num (x * 100)"
    by simp
next
  assume "\<forall>m \<in> {''returnOnEquity'', ''returnOnAssets'', ''grossMargins'', ''operatingMargins'',
             ''profitMargins'', ''payoutRatio''}. info e m \<noteq> Some PyNone"
  from ratios_complete [OF this] assms(1) obtain v
    where "percent e metric = Inr v" "calculate_financial_ratios e key = Some v"
    by auto
  with percent_value [OF assms(2)] show "calculate_financial_ratios e key = Some (Num (x * 100))"
    by simp
qed

theorem percentage_ratios_witness:
  "calculate_financial_ratios profitable ''roe'' = Some (Num (0.15 * 100))
   \<and> calculate_financial_ratios profitable ''roa'' = Some (Num (0.08 * 100))
   \<and> calculate_financial_ratios profitable ''gross_margin'' = Some (Num (0.4 * 100))
   \<and> calculate_financial_ratios profitable ''operating_margin'' = Some (Num (0.2 * 100))
   \<and> calculate_financial_ratios profitable ''profit_margin'' = Some (Num (0.1 * 100))
   \<and> calculate_financial_ratios profitable ''payout_ratio'' = Some (Num (0.5 * 100))"
proof -
  have complete: "\<forall>m \<in> {''returnOnEquity'', ''returnOnAssets'', ''grossMargins'',
      ''operatingMargins'', ''profitMargins'', ''payoutRatio''}. info profitable m \<noteq> Some PyNone"
    by (simp add: profitable_def with_info_def)
  have metrics: "info profitable ''returnOnEquity'' = Some (Num 0.15)"
    "info profitable ''returnOnAssets'' = Some (Num 0.08)"
    "info profitable ''grossMargins'' = Some (Num 0.4)"
    "info profitable ''operatingMargins'' = Some (Num 0.2)"
    "info profitable ''profitMargins'' = Some (Num 0.1)"
    "info profitable ''payoutRatio'' = Some (Num 0.5)"
    by (simp_all add: profitable_def with_info_def)
  have "calculate_financial_ratios profitable ''roe'' = Some (Num (0.15 * 100))"
    by (rule percentage_ratios [THEN conjunct2, THEN mp, OF _ metrics(1) complete]) simp
  moreover have "calculate_financial_ratios profitable ''roa'' = Some (Num (0.08 * 100))"
    by (rule percentage_ratios [THEN conjunct2, THEN mp, OF _ metrics(2) complete]) simp
  moreover have "calculate_financial_ratios profitable ''gross_margin'' = Some (Num (0.4 * 100))"
    by (rule percentage_ratios [THEN conjunct2, THEN mp, OF _ metrics(3) complete]) simp
  moreover have "calculate_financial_ratios profitable ''operating_margin'' = Some (Num (0.2 * 100))"
    by (rule percentage_ratios [THEN conjunct2, THEN mp, OF _ metrics(4) complete]) simp
  moreover have "calculate_financial_ratios profitable ''profit_margin'' = Some (Num (0.1 * 100))"
    by (rule percentage_ratios [THEN conjunct2, THEN mp, OF _ metrics(5) complete]) simp
  moreover have "calculate_financial_ratios profitable ''payout_ratio'' = Some (Num (0.5 * 100))"
    by (rule percentage_ratios [THEN conjunct2, THEN mp, OF _ metrics(6) complete]) simp
  ultimately show ?thesis
    by (intro conjI)
qed

section \<open>The summary and its recommendation\<close>

subsection \<open>The DCF of the example engines over five years\<close>

lemma five_years: "[1..<nat (5 + 1)] = [1, 2, 3, 4, 5]"
  by (simp add: upt_rec)

lemma project_five_years:
  "project_fcff (Num 100) (Num 0.05) [1, 2, 3, 4, 5] =
     Inr [Num 105, Num 110.25, Num 115.7625, Num 121.550625, Num 127.62815625]"
  by (simp add: power_divide)

lemma terminal_value_five_years:
  "terminal_value [Num 105, Num 110.25, Num 115.7625, Num 121.550625, Num 127.62815625] (Num 0.09) (Num 0.03)
     = Inr (Num 2190.950015625)"
  by (simp add: terminal_value_def terminal_fcff_def py_last_def)

lemma enterprise_value_five_years:
  "enterprise_value [Num 105, Num 110.25, Num 115.7625, Num 121.550625, Num 127.62815625]
     (Num 2190.950015625) (Num 0.09) 5 = Inr (Num (264183375750 / 141158161))"
  by (simp add: enterprise_value_def power_divide)

lemma current_fcff_priced: "current_fcff (priced c) = Inr (Num 100)"
  by (simp add: current_fcff_def statement_latest_def priced_def with_info_def bare_engine_def)

lemma current_wacc_priced: "current_wacc (priced c) = Inr (Num 0.09)"
  by (simp add: current_wacc_def calculate_beta_def dict_item_def calculate_wacc_def
      wacc_try_def priced_def with_info_def bare_engine_def dict_get_def estimate_cost_of_debt_def Let_def)

lemma dcf_priced:
  "dcf_try (priced c) (Num 0.05) (Num 0.03) 5 =
     Inr [''intrinsic_value'' \<mapsto> Num (264183375750 / 141158161),
          ''enterprise_value'' \<mapsto> Num (264183375750 / 141158161),
          ''equity_value'' \<mapsto> Num (264183375750 / 141158161),
          ''current_fcff'' \<mapsto> Num 100,
          ''wacc'' \<mapsto> Num 0.09,
          ''margin_of_safety'' \<mapsto> Num ((264183375750 / 141158161 - c) / (264183375750 / 141158161) * 100)]"
  unfolding dcf_try_def current_wacc_priced current_fcff_priced py_bind_Inr five_years
    project_five_years terminal_value_five_years enterprise_value_five_years
  by (simp add: priced_def with_info_def bare_engine_def dict_get_def)

lemma dcf_bare_five_years:
  "dcf_try bare_engine (Num 0.05) (Num 0.03) 5 =
     Inr [''intrinsic_value'' \<mapsto> Num (264183375750 / 141158161),
          ''enterprise_value'' \<mapsto> Num (264183375750 / 141158161),
          ''equity_value'' \<mapsto> Num (264183375750 / 141158161),
          ''current_fcff'' \<mapsto> Num 100,
          ''wacc'' \<mapsto> Num 0.09,
          ''margin_of_safety'' \<mapsto> Num 100]"
  unfolding dcf_try_def current_wacc_bare current_fcff_bare py_bind_Inr five_years
    project_five_years terminal_value_five_years enterprise_value_five_years
  by (simp add: bare_engine_def dict_get_def)

text \<open>The same valuation from a float64 statement: every value from the FCFF on is a \<open>numpy.float64\<close>.\<close>

lemma project_five_years_float64:
  "project_fcff (Np (Fin 100)) (Num 0.05) [1, 2, 3, 4, 5] =
     Inr [Np (Fin 105), Np (Fin 110.25), Np (Fin 115.7625), Np (Fin 121.550625),
          Np (Fin 127.62815625)]"
  by (simp add: power_divide)

lemma terminal_value_five_years_float64:
  "terminal_value [Np (Fin 105), Np (Fin 110.25), Np (Fin 115.7625), Np (Fin 121.550625),
       Np (Fin 127.62815625)] (Num 0.09) (Num 0.03)
     = Inr (Np (Fin 2190.950015625))"
  by (simp add: terminal_value_def terminal_fcff_def py_last_def np_sub_def)

lemma enterprise_value_five_years_float64:
  "enterprise_value [Np (Fin 105), Np (Fin 110.25), Np (Fin 115.7625), Np (Fin 121.550625),
       Np (Fin 127.62815625)] (Np (Fin 2190.950015625)) (Num 0.09) 5
     = Inr (Np (Fin (264183375750 / 141158161)))"
  by (simp add: enterprise_value_def power_divide)

lemma current_wacc_float64_priced:
  "current_wacc (float64_with [''currentPrice'' \<mapsto> Num c]) = Inr (Num 0.09)"
  by (simp add: current_wacc_def calculate_beta_def dict_item_def calculate_wacc_def
      wacc_try_def float64_with_def float64_engine_def bare_engine_def
      dict_get_def estimate_cost_of_debt_def Let_def)

lemma dcf_float64_five_years:
  "dcf_try float64_engine (Num 0.05) (Num 0.03) 5 =
     Inr [''intrinsic_value'' \<mapsto> Np (Fin (264183375750 / 141158161)),
          ''enterprise_value'' \<mapsto> Np (Fin (264183375750 / 141158161)),
          ''equity_value'' \<mapsto> Np (Fin (264183375750 / 141158161)),
          ''current_fcff'' \<mapsto> Np (Fin 100),
          ''wacc'' \<mapsto> Num 0.09,
          ''margin_of_safety'' \<mapsto> Np (Fin 100)]"
  unfolding dcf_try_def current_wacc_float64 current_fcff_float64_engine py_bind_Inr five_years
    project_five_years_float64 terminal_value_five_years_float64
    enterprise_value_five_years_float64
  by (simp add: float64_engine_def bare_engine_def dict_get_def np_sub_def)

lemma dcf_float64_priced:
  "dcf_try (float64_priced c) (Num 0.05) (Num 0.03) 5 =
     Inr [''intrinsic_value'' \<mapsto> Np (Fin (264183375750 / 141158161)),
          ''enterprise_value'' \<mapsto> Np (Fin (264183375750 / 141158161)),
          ''equity_value'' \<mapsto> Np (Fin (264183375750 / 141158161)),
          ''current_fcff'' \<mapsto> Np (Fin 100),
          ''wacc'' \<mapsto> Num 0.09,
          ''margin_of_safety'' \<mapsto>
             Np (Fin ((264183375750 / 141158161 - c) / (264183375750 / 141158161) * 100))]"
  unfolding float64_priced_def dcf_try_def current_wacc_float64_priced current_fcff_float64
    py_bind_Inr five_years project_five_years_float64 terminal_value_five_years_float64
    enterprise_value_five_years_float64
  by (simp add: float64_with_def float64_engine_def bare_engine_def dict_get_def np_sub_def)

text \<open>A current FCFF of zero gives an intrinsic value of zero, and a result.\<close>

lemma current_fcff_idle: "current_fcff idle_engine = Inr (Np (Fin 0))"
  by (simp add: current_fcff_def statement_latest_def idle_engine_def bare_engine_def)

lemma current_wacc_idle: "current_wacc idle_engine = Inr (Num 0.09)"
  by (simp add: current_wacc_def calculate_beta_def dict_item_def calculate_wacc_def
      wacc_try_def idle_engine_def bare_engine_def dict_get_def estimate_cost_of_debt_def
      Let_def)

lemma project_idle:
  "project_fcff (Np (Fin 0)) (Num 0.05) [1, 2, 3, 4, 5] =
     Inr [Np (Fin 0), Np (Fin 0), Np (Fin 0), Np (Fin 0), Np (Fin 0)]"
  by simp

lemma terminal_value_idle:
  "terminal_value [Np (Fin 0), Np (Fin 0), Np (Fin 0), Np (Fin 0), Np (Fin 0)] (Num 0.09) (Num 0.03)
     = Inr (Np (Fin 0))"
  by (simp add: terminal_value_def terminal_fcff_def py_last_def np_sub_def)

lemma enterprise_value_idle:
  "enterprise_value [Np (Fin 0), Np (Fin 0), Np (Fin 0), Np (Fin 0), Np (Fin 0)] (Np (Fin 0))
     (Num 0.09) 5 = Inr (Np (Fin 0))"
  by (simp add: enterprise_value_def)

lemma dcf_idle:
  "dcf_try idle_engine (Num 0.05) (Num 0.03) 5 =
     Inr [''intrinsic_value'' \<mapsto> Np (Fin 0),
          ''enterprise_value'' \<mapsto> Np (Fin 0),
          ''equity_value'' \<mapsto> Np (Fin 0),
          ''current_fcff'' \<mapsto> Np (Fin 0),
          ''wacc'' \<mapsto> Num 0.09,
          ''margin_of_safety'' \<mapsto> Np NotANumber]"
  unfolding dcf_try_def current_wacc_idle current_fcff_idle py_bind_Inr five_years
    project_idle terminal_value_idle enterprise_value_idle
  by (simp add: idle_engine_def bare_engine_def dict_get_def np_sub_def)

lemma dcf_no_statements: "dcf_valuation no_statements (Num 0.05) (Num 0.03) 5 = None"
  by (simp add: dcf_valuation_None dcf_try_def current_fcff_def statement_latest_def
      no_statements_def)

subsection \<open>The entries of the merged summary\<close>

lemma ratios_no_key:
  "k \<notin> fst ` set (ratio_assignments e) \<Longrightarrow> calculate_financial_ratios e k = None"
  by (simp add: calculate_financial_ratios_def assign_all_other)

lemma ratios_other_keys:
  "calculate_financial_ratios e ''intrinsic_value'' = None"
  "calculate_financial_ratios e ''discount'' = None"
  "calculate_financial_ratios e ''recommendation'' = None"
  by (simp_all add: ratios_no_key ratio_assignments_def)

lemma beta_other_keys:
  "calculate_beta e ''intrinsic_value'' = None"
  "calculate_beta e ''discount'' = None"
  "calculate_beta e ''recommendation'' = None"
  by (simp_all add: calculate_beta_def split: option.splits)

lemma py_div_not_None: "py_div a b = Inr v \<Longrightarrow> v \<noteq> PyNone"
  by (cases a; cases b) (auto split: if_splits)

lemma py_sub_operands: "py_sub a b = Inr v \<Longrightarrow> a \<noteq> PyNone \<and> b \<noteq> PyNone"
  by (cases a; cases b) auto

lemma dcf_result_keys:
  assumes "dcf_try e g t y = Inr r"
  shows "r ''discount'' = None" "r ''recommendation'' = None"
    "\<exists>v. r ''intrinsic_value'' = Some v \<and> v \<noteq> PyNone"
    "dict_get (info e) ''currentPrice'' (Num 0) \<noteq> PyNone"
proof -
  from assms obtain iv eq sh gap where r: "r ''discount'' = None" "r ''recommendation'' = None"
    "r ''intrinsic_value'' = Some iv" "py_div eq sh = Inr iv"
    "py_sub iv (dict_get (info e) ''currentPrice'' (Num 0)) = Inr gap"
    by (auto simp add: dcf_try_def py_bind_eq_Inr Let_def)
  from r(4) have "iv \<noteq> PyNone"
    by (rule py_div_not_None)
  with r(1-3) py_sub_operands [OF r(5)]
  show "r ''discount'' = None" "r ''recommendation'' = None"
    "\<exists>v. r ''intrinsic_value'' = Some v \<and> v \<noteq> PyNone"
    "dict_get (info e) ''currentPrice'' (Num 0) \<noteq> PyNone"
    by simp_all
qed

lemma merged_summary_lookup:
  "merged_summary e k =
     (case numeric (calculate_beta e) k of
        Some v \<Rightarrow> Some v
      | None \<Rightarrow>
         (case numeric (calculate_financial_ratios e) k of
            Some v \<Rightarrow> Some v
          | None \<Rightarrow>
             (case dcf_valuation e (Num 0.05) (Num 0.03) 5 of
                Some r \<Rightarrow>
                  (case numeric r k of
                     Some v \<Rightarrow> Some v
                   | None \<Rightarrow>
                       [''company_name'' \<mapsto> Txt (dict_get (info_text e) ''longName'' ''N/A''),
                        ''sector'' \<mapsto> Txt (dict_get (info_text e) ''sector'' ''N/A''),
                        ''industry'' \<mapsto> Txt (dict_get (info_text e) ''industry'' ''N/A'')] k)
              | None \<Rightarrow>
                  [''company_name'' \<mapsto> Txt (dict_get (info_text e) ''longName'' ''N/A''),
                   ''sector'' \<mapsto> Txt (dict_get (info_text e) ''sector'' ''N/A''),
                   ''industry'' \<mapsto> Txt (dict_get (info_text e) ''industry'' ''N/A'')] k)))"
  by (simp add: merged_summary_def Let_def map_add_def split: option.splits)

lemma merged_no_recommendation:
  "merged_summary e ''recommendation'' = None" "merged_summary e ''discount'' = None"
  by (auto simp add: merged_summary_lookup numeric_def ratios_other_keys beta_other_keys
      dcf_valuation_Some dest: dcf_result_keys split: option.splits)

lemma merged_intrinsic_value:
  "merged_summary e ''intrinsic_value'' =
     (case dcf_valuation e (Num 0.05) (Num 0.03) 5 of
        None \<Rightarrow> None
      | Some r \<Rightarrow> map_option Val (r ''intrinsic_value''))"
  by (auto simp add: merged_summary_lookup numeric_def ratios_other_keys beta_other_keys
      split: option.splits)

lemma recommend_lookup:
  "recommend summary label colour ''recommendation'' = Some (Txt label)"
  "recommend summary label colour ''discount'' = summary ''discount''"
  "recommend summary label colour ''intrinsic_value'' = summary ''intrinsic_value''"
  by (simp_all add: recommend_def)

subsection \<open>The discount and the chain of comparisons\<close>

lemma summary_discount_value:
  assumes "summary_discount iv price = Inr d"
  shows "d \<noteq> PyNone" and "as_np d = spec_discount (as_np iv) (as_np price)"
  using assms
  by (cases iv; cases price;
      auto simp add: summary_discount_def spec_discount_def np_sub_def split: if_splits)+

lemma summary_discount_error:
  assumes "summary_discount iv price = Inl err" "iv \<noteq> PyNone" "price \<noteq> PyNone"
  shows "err = ZeroDivisionError \<and> \<not> is_numpy iv \<and> price = Num 0"
  using assms
  by (cases iv; cases price) (auto simp add: summary_discount_def split: if_splits)

lemma summary_discount_raises:
  assumes "iv \<noteq> PyNone" "\<not> is_numpy iv"
  shows "summary_discount iv (Num 0) = Inl ZeroDivisionError"
  using assms by (cases iv) (simp_all add: summary_discount_def)

lemma summary_discount_zero_price:
  assumes "np_less (Fin 0) x"
  shows "summary_discount (Np x) (Num 0) = Inr (Np PosInf)"
  using assms by (cases x) (simp_all add: summary_discount_def np_sub_def)



lemma classify_spec:
  assumes "d \<noteq> PyNone"
  shows "classify summary d =
     Inr (recommend summary (spec_recommendation (as_np d))
            (colour_of (spec_recommendation (as_np d))))"
proof (cases d)
  case PyNone
  with assms show ?thesis
    by simp
next
  case (Num a)
  then show ?thesis
    by (simp add: classify_def spec_recommendation_def colour_of_def np_le_def)
next
  case NaN
  then show ?thesis
    by (simp add: classify_def spec_recommendation_def colour_of_def np_le_def)
next
  case (Np x)
  then show ?thesis
    by (cases x) (simp_all add: classify_def spec_recommendation_def colour_of_def np_le_def)
qed

text \<open>\<open>get_summary\<close> by cases on the DCF result and on the test \<open>intrinsic_value > 0\<close>.\<close>

lemma get_summary_unavailable:
  assumes "dcf_valuation e (Num 0.05) (Num 0.03) 5 = None"
  shows "get_summary e = Inr (merged_summary e)"
  using assms by (simp add: get_summary_def Let_def dict_get_def merged_intrinsic_value)

lemma dcf_intrinsic_value:
  assumes "dcf_valuation e (Num 0.05) (Num 0.03) 5 = Some r"
  shows "\<exists>v. r ''intrinsic_value'' = Some v \<and> v \<noteq> PyNone"
  using assms dcf_result_keys(3) [of e "Num 0.05" "Num 0.03" 5 r]
  by (simp add: dcf_valuation_Some)

lemma dcf_price_not_None:
  assumes "dcf_valuation e (Num 0.05) (Num 0.03) 5 = Some r"
  shows "dict_get (info e) ''currentPrice'' (Num 0) \<noteq> PyNone"
  using assms dcf_result_keys(4) [of e "Num 0.05" "Num 0.03" 5 r]
  by (simp add: dcf_valuation_Some)

lemma py_gt_total: "a \<noteq> PyNone \<Longrightarrow> \<exists>b. py_gt a (Num 0) = Inr b"
  by (cases a) auto

lemma get_summary_not_positive:
  assumes "dcf_valuation e (Num 0.05) (Num 0.03) 5 = Some r" "r ''intrinsic_value'' = Some v"
    "py_gt v (Num 0) \<noteq> Inr True"
  shows "get_summary e = Inr (merged_summary e)"
proof -
  from dcf_intrinsic_value [OF assms(1)] assms(2) have "v \<noteq> PyNone"
    by simp
  from py_gt_total [OF this] assms(3) have "py_gt v (Num 0) = Inr False"
    by auto
  with assms(1,2) show ?thesis
    by (simp add: get_summary_def Let_def dict_get_def merged_intrinsic_value)
qed

lemma get_summary_positive:
  assumes "dcf_valuation e (Num 0.05) (Num 0.03) 5 = Some r" "r ''intrinsic_value'' = Some v"
    "py_gt v (Num 0) = Inr True"
  shows "get_summary e =
     py_bind (summary_discount v (dict_get (info e) ''currentPrice'' (Num 0))) (\<lambda>discount.
     classify ((merged_summary e)(''discount'' \<mapsto> Val discount)) discount)"
  using assms by (simp add: get_summary_def Let_def dict_get_def merged_intrinsic_value)

lemma get_summary_recommends:
  assumes "dcf_valuation e (Num 0.05) (Num 0.03) 5 = Some r" "r ''intrinsic_value'' = Some v"
    "py_gt v (Num 0) = Inr True"
    "summary_discount v (dict_get (info e) ''currentPrice'' (Num 0)) = Inr d"
  shows "get_summary e =
     Inr (recommend ((merged_summary e)(''discount'' \<mapsto> Val d))
            (spec_recommendation (as_np d)) (colour_of (spec_recommendation (as_np d))))"
  using assms(4) summary_discount_value(1) [OF assms(4)]
  by (simp add: get_summary_positive [OF assms(1,2,3)] classify_spec)

lemma get_summary_raises:
  assumes "dcf_valuation e (Num 0.05) (Num 0.03) 5 = Some r" "r ''intrinsic_value'' = Some v"
    "py_gt v (Num 0) = Inr True" "\<not> is_numpy v"
    "dict_get (info e) ''currentPrice'' (Num 0) = Num 0"
  shows "get_summary e = Inl ZeroDivisionError"
proof -
  from dcf_intrinsic_value [OF assms(1)] assms(2) have "v \<noteq> PyNone"
    by simp
  from summary_discount_raises [OF this assms(4)] assms(5) show ?thesis
    by (simp add: get_summary_positive [OF assms(1,2,3)])
qed

lemma get_summary_returns:
  assumes "dcf_valuation e (Num 0.05) (Num 0.03) 5 = Some r" "r ''intrinsic_value'' = Some v"
    "py_gt v (Num 0) = Inr True"
    "is_numpy v \<or> dict_get (info e) ''currentPrice'' (Num 0) \<noteq> Num 0"
  shows "\<exists>d. summary_discount v (dict_get (info e) ''currentPrice'' (Num 0)) = Inr d"
proof (cases "summary_discount v (dict_get (info e) ''currentPrice'' (Num 0))")
  case (Inl err)
  from dcf_intrinsic_value [OF assms(1)] assms(2) have "v \<noteq> PyNone"
    by simp
  from summary_discount_error [OF Inl this dcf_price_not_None [OF assms(1)]] assms(4)
  show ?thesis
    by simp
next
  case (Inr d)
  then show ?thesis
    by simp
qed

lemma summary_entries:
  assumes "dcf_valuation e (Num 0.05) (Num 0.03) 5 = Some r" "r ''intrinsic_value'' = Some v"
  shows "recommend ((merged_summary e)(''discount'' \<mapsto> Val d)) label colour ''intrinsic_value''
           = Some (Val v)"
    and "recommend ((merged_summary e)(''discount'' \<mapsto> Val d)) label colour ''discount''
           = Some (Val d)"
    and "recommend ((merged_summary e)(''discount'' \<mapsto> Val d)) label colour ''recommendation''
           = Some (Txt label)"
  using assms by (simp_all add: recommend_lookup merged_intrinsic_value)


text \<open>
  The outcome of \<open>get_summary\<close> once the intrinsic value is positive: the summary with
  its discount and its label, or the error of the division.
\<close>

lemma get_summary_outcome:
  assumes "dcf_valuation e (Num 0.05) (Num 0.03) 5 = Some r" "r ''intrinsic_value'' = Some v"
    "py_gt v (Num 0) = Inr True"
  shows "(\<not> is_numpy v \<and> dict_get (info e) ''currentPrice'' (Num 0) = Num 0
            \<and> get_summary e = Inl ZeroDivisionError)
       \<or> ((is_numpy v \<or> dict_get (info e) ''currentPrice'' (Num 0) \<noteq> Num 0)
            \<and> (\<exists>d. summary_discount v (dict_get (info e) ''currentPrice'' (Num 0)) = Inr d
                 \<and> d \<noteq> PyNone
                 \<and> get_summary e =
                     Inr (recommend ((merged_summary e)(''discount'' \<mapsto> Val d))
                            (spec_recommendation (as_np d))
                            (colour_of (spec_recommendation (as_np d))))))"
proof (cases "is_numpy v \<or> dict_get (info e) ''currentPrice'' (Num 0) \<noteq> Num 0")
  case True
  from get_summary_returns [OF assms True] obtain d
    where d: "summary_discount v (dict_get (info e) ''currentPrice'' (Num 0)) = Inr d"
    by blast
  from get_summary_recommends [OF assms d] summary_discount_value(1) [OF d] d True
  show ?thesis
    by blast
next
  case False
  then have "\<not> is_numpy v" "dict_get (info e) ''currentPrice'' (Num 0) = Num 0"
    by simp_all
  with get_summary_raises [OF assms this] show ?thesis
    by simp
qed

subsection \<open>The summaries of the example engines\<close>

lemma dcf_bare_intrinsic:
  "\<exists>r. dcf_valuation bare_engine (Num 0.05) (Num 0.03) 5 = Some r
     \<and> r ''intrinsic_value'' = Some (Num (264183375750 / 141158161))"
  unfolding dcf_valuation_Some dcf_bare_five_years by simp

lemma dcf_priced_intrinsic:
  "\<exists>r. dcf_valuation (priced c) (Num 0.05) (Num 0.03) 5 = Some r
     \<and> r ''intrinsic_value'' = Some (Num (264183375750 / 141158161))"
  unfolding dcf_valuation_Some dcf_priced by simp

lemma dcf_float64_intrinsic:
  "\<exists>r. dcf_valuation float64_engine (Num 0.05) (Num 0.03) 5 = Some r
     \<and> r ''intrinsic_value'' = Some (Np (Fin (264183375750 / 141158161)))"
  unfolding dcf_valuation_Some dcf_float64_five_years by simp

lemma dcf_float64_priced_intrinsic:
  "\<exists>r. dcf_valuation (float64_priced c) (Num 0.05) (Num 0.03) 5 = Some r
     \<and> r ''intrinsic_value'' = Some (Np (Fin (264183375750 / 141158161)))"
  unfolding dcf_valuation_Some dcf_float64_priced by simp

lemma dcf_idle_intrinsic:
  "\<exists>r. dcf_valuation idle_engine (Num 0.05) (Num 0.03) 5 = Some r
     \<and> r ''intrinsic_value'' = Some (Np (Fin 0))"
  unfolding dcf_valuation_Some dcf_idle by simp

lemma price_of_priced: "dict_get (info (priced c)) ''currentPrice'' (Num 0) = Num c"
  by (simp add: priced_def with_info_def dict_get_def)

lemma price_of_bare: "dict_get (info bare_engine) ''currentPrice'' (Num 0) = Num 0"
  by (simp add: bare_engine_def dict_get_def)


lemma price_of_float64_priced:
  "dict_get (info (float64_priced c)) ''currentPrice'' (Num 0) = Num c"
  by (simp add: float64_priced_def float64_with_def dict_get_def)

lemma intrinsic_positive: "py_gt (Num (264183375750 / 141158161)) (Num 0) = Inr True"
  by simp

lemma intrinsic_positive_float64:
  "py_gt (Np (Fin (264183375750 / 141158161))) (Num 0) = Inr True"
  by simp

lemma summary_discount_python:
  "c \<noteq> 0 \<Longrightarrow> summary_discount (Num x) (Num c) = Inr (Num ((x - c) / c * 100))"
  by (simp add: summary_discount_def)

lemma summary_negative_price:
  "\<exists>s. get_summary (priced (- 5)) = Inr s \<and> s ''recommendation'' = Some (Txt ''VENDER'')
      \<and> s ''discount'' \<noteq> None"
proof -
  obtain r where r: "dcf_valuation (priced (- 5)) (Num 0.05) (Num 0.03) 5 = Some r"
    "r ''intrinsic_value'' = Some (Num (264183375750 / 141158161))"
    using dcf_priced_intrinsic by blast
  let ?d = "Num ((264183375750 / 141158161 - (- 5)) / (- 5) * 100)"
  have d: "summary_discount (Num (264183375750 / 141158161))
      (dict_get (info (priced (- 5))) ''currentPrice'' (Num 0)) = Inr ?d"
    unfolding price_of_priced by (rule summary_discount_python) simp
  have "spec_recommendation (as_np ?d) = ''VENDER''"
    by (simp add: spec_recommendation_def np_le_def)
  with get_summary_recommends [OF r intrinsic_positive d] show ?thesis
    by (simp add: recommend_lookup)
qed

lemma summary_priced_1500:
  "\<exists>s. get_summary (priced 1500) = Inr s \<and> s ''recommendation'' = Some (Txt ''COMPRAR'')
      \<and> s ''intrinsic_value'' = Some (Val (Num (264183375750 / 141158161)))
      \<and> s ''discount'' \<noteq> None"
proof -
  obtain r where r: "dcf_valuation (priced 1500) (Num 0.05) (Num 0.03) 5 = Some r"
    "r ''intrinsic_value'' = Some (Num (264183375750 / 141158161))"
    using dcf_priced_intrinsic by blast
  let ?d = "Num ((264183375750 / 141158161 - 1500) / 1500 * 100)"
  have d: "summary_discount (Num (264183375750 / 141158161))
      (dict_get (info (priced 1500)) ''currentPrice'' (Num 0)) = Inr ?d"
    unfolding price_of_priced by (rule summary_discount_python) simp
  have "spec_recommendation (as_np ?d) = ''COMPRAR''"
    by (simp add: spec_recommendation_def np_le_def)
  with get_summary_recommends [OF r intrinsic_positive d] summary_entries(1) [OF r]
  show ?thesis
    by (simp add: recommend_lookup)
qed

lemma summary_zero_price_float64:
  assumes "dcf_valuation e (Num 0.05) (Num 0.03) 5 = Some r"
    "r ''intrinsic_value'' = Some (Np x)" "np_less (Fin 0) x"
    "dict_get (info e) ''currentPrice'' (Num 0) = Num 0"
  shows "\<exists>s. get_summary e = Inr s \<and> s ''discount'' = Some (Val (Np PosInf))
           \<and> s ''recommendation'' = Some (Txt ''COMPRAR'')
           \<and> s ''intrinsic_value'' = Some (Val (Np x))"
proof -
  from assms(3) have positive: "py_gt (Np x) (Num 0) = Inr True"
    by simp
  have d: "summary_discount (Np x) (dict_get (info e) ''currentPrice'' (Num 0)) = Inr (Np PosInf)"
    unfolding assms(4) by (rule summary_discount_zero_price [OF assms(3)])
  have "spec_recommendation (as_np (Np PosInf)) = ''COMPRAR''"
    by (simp add: spec_recommendation_def)
  with get_summary_recommends [OF assms(1,2) positive d] summary_entries [OF assms(1,2)]
  show ?thesis
    by simp
qed


lemma summary_float64_priced:
  "\<exists>s. get_summary (float64_priced 0) = Inr s \<and> s ''discount'' = Some (Val (Np PosInf))
      \<and> s ''recommendation'' = Some (Txt ''COMPRAR'')"
proof -
  obtain r where r: "dcf_valuation (float64_priced 0) (Num 0.05) (Num 0.03) 5 = Some r"
    "r ''intrinsic_value'' = Some (Np (Fin (264183375750 / 141158161)))"
    using dcf_float64_priced_intrinsic by blast
  have "np_less (Fin 0) (Fin (264183375750 / 141158161))"
    by simp
  from summary_zero_price_float64 [OF r this price_of_float64_priced] show ?thesis
    by blast
qed

lemma summary_bare_raises: "get_summary bare_engine = Inl ZeroDivisionError"
proof -
  obtain r where r: "dcf_valuation bare_engine (Num 0.05) (Num 0.03) 5 = Some r"
    "r ''intrinsic_value'' = Some (Num (264183375750 / 141158161))"
    using dcf_bare_intrinsic by blast
  show ?thesis
    by (rule get_summary_raises [OF r intrinsic_positive _ price_of_bare]) simp
qed

lemma summary_priced_zero_raises: "get_summary (priced 0) = Inl ZeroDivisionError"
proof -
  obtain r where r: "dcf_valuation (priced 0) (Num 0.05) (Num 0.03) 5 = Some r"
    "r ''intrinsic_value'' = Some (Num (264183375750 / 141158161))"
    using dcf_priced_intrinsic by blast
  show ?thesis
    by (rule get_summary_raises [OF r intrinsic_positive _ price_of_priced]) simp
qed



subsection \<open>The thresholds\<close>



subsection \<open>The gate of the recommendation\<close>

text \<open>
  C5, as the specification states it, fails: \<open>get_summary\<close> does not test the current
  price. With a current price of -5 and a positive intrinsic value the summary returned
  contains the recommendation \<open>VENDER\<close>; with a current price of 0 and the positive
  intrinsic value of a float64 statement it contains the recommendation \<open>COMPRAR\<close>.
\<close>

theorem price_gate_counterexample:
  "dict_get (info (priced (- 5))) ''currentPrice'' (Num 0) = Num (- 5)
   \<and> (- 5 :: real) \<le> 0
   \<and> (\<exists>s. get_summary (priced (- 5)) = Inr s \<and> s ''recommendation'' = Some (Txt ''VENDER''))
   \<and> dict_get (info (float64_priced 0)) ''currentPrice'' (Num 0) = Num 0
   \<and> (\<exists>s. get_summary (float64_priced 0) = Inr s
         \<and> s ''recommendation'' = Some (Txt ''COMPRAR''))"
  using summary_negative_price price_of_priced [of "- 5"] summary_float64_priced
    price_of_float64_priced [of 0]
  by auto

text \<open>
  C5, amended: \<open>get_summary\<close> derives a recommendation and a discount only when the
  intrinsic value per share is available and positive; the current price is not tested.
  Every run is covered. Where the DCF result is unavailable, or its intrinsic value is
  not positive, the summary is returned and contains neither a recommendation nor a
  discount. Where the intrinsic value is positive, the summary is returned with a
  recommendation and a discount, whatever the current price, but for one case: a
  plain Python float intrinsic value divided by a current price of zero raises
  \<open>ZeroDivisionError\<close>, and no summary is returned. So a summary that is returned
  contains a recommendation exactly when the intrinsic value is available and positive,
  and a discount exactly when it contains a recommendation.
\<close>

theorem recommendation_gate:
  "(dcf_valuation e (Num 0.05) (Num 0.03) 5 = None \<longrightarrow>
      (\<exists>s. get_summary e = Inr s \<and> s ''recommendation'' = None \<and> s ''discount'' = None))
   \<and> (\<forall>r. dcf_valuation e (Num 0.05) (Num 0.03) 5 = Some r \<longrightarrow>
         (\<exists>iv. r ''intrinsic_value'' = Some iv
            \<and> (if py_gt iv (Num 0) \<noteq> Inr True
               then \<exists>s. get_summary e = Inr s \<and> s ''recommendation'' = None
                      \<and> s ''discount'' = None
               else if \<not> is_numpy iv \<and> dict_get (info e) ''currentPrice'' (Num 0) = Num 0
               then get_summary e = Inl ZeroDivisionError
               else \<exists>s label d. get_summary e = Inr s
                      \<and> s ''recommendation'' = Some (Txt label)
                      \<and> s ''discount'' = Some (Val d))))
   \<and> (\<forall>s. get_summary e = Inr s \<longrightarrow>
         ((s ''recommendation'' \<noteq> None) =
            (\<exists>r iv. dcf_valuation e (Num 0.05) (Num 0.03) 5 = Some r
               \<and> r ''intrinsic_value'' = Some iv \<and> py_gt iv (Num 0) = Inr True))
         \<and> ((s ''discount'' \<noteq> None) = (s ''recommendation'' \<noteq> None)))"
proof (intro conjI impI allI)
  assume "dcf_valuation e (Num 0.05) (Num 0.03) 5 = None"
  then show "\<exists>s. get_summary e = Inr s \<and> s ''recommendation'' = None \<and> s ''discount'' = None"
    by (simp add: get_summary_unavailable merged_no_recommendation)
next
  fix r
  assume r: "dcf_valuation e (Num 0.05) (Num 0.03) 5 = Some r"
  from dcf_intrinsic_value [OF r] obtain v where v: "r ''intrinsic_value'' = Some v"
    by blast
  let ?price = "dict_get (info e) ''currentPrice'' (Num 0)"
  have "if py_gt v (Num 0) \<noteq> Inr True
        then \<exists>s. get_summary e = Inr s \<and> s ''recommendation'' = None \<and> s ''discount'' = None
        else if \<not> is_numpy v \<and> ?price = Num 0
        then get_summary e = Inl ZeroDivisionError
        else \<exists>s label d. get_summary e = Inr s \<and> s ''recommendation'' = Some (Txt label)
               \<and> s ''discount'' = Some (Val d)"
  proof (cases "py_gt v (Num 0) = Inr True")
    case False
    with get_summary_not_positive [OF r v False] show ?thesis
      by (simp add: merged_no_recommendation)
  next
    case True
    show ?thesis
    proof (cases "\<not> is_numpy v \<and> ?price = Num 0")
      case raises: True
      with get_summary_raises [OF r v True] True show ?thesis
        by auto
    next
      case False
      with get_summary_outcome [OF r v True] obtain d
        where s: "get_summary e = Inr (recommend ((merged_summary e)(''discount'' \<mapsto> Val d))
                      (spec_recommendation (as_np d)) (colour_of (spec_recommendation (as_np d))))"
        by auto
      from s summary_entries(2,3) [OF r v]
      have "\<exists>s label d. get_summary e = Inr s \<and> s ''recommendation'' = Some (Txt label)
               \<and> s ''discount'' = Some (Val d)"
        by blast
      with True False show ?thesis
        by auto
    qed
  qed
  with v show "\<exists>iv. r ''intrinsic_value'' = Some iv
            \<and> (if py_gt iv (Num 0) \<noteq> Inr True
               then \<exists>s. get_summary e = Inr s \<and> s ''recommendation'' = None
                      \<and> s ''discount'' = None
               else if \<not> is_numpy iv \<and> ?price = Num 0
               then get_summary e = Inl ZeroDivisionError
               else \<exists>s label d. get_summary e = Inr s
                      \<and> s ''recommendation'' = Some (Txt label)
                      \<and> s ''discount'' = Some (Val d))"
    by blast
next
  fix s
  assume s: "get_summary e = Inr s"
  let ?positive = "\<exists>r iv. dcf_valuation e (Num 0.05) (Num 0.03) 5 = Some r
               \<and> r ''intrinsic_value'' = Some iv \<and> py_gt iv (Num 0) = Inr True"
  have both: "(s ''recommendation'' \<noteq> None) = ?positive \<and> (s ''discount'' \<noteq> None) = ?positive"
  proof (cases ?positive)
    case True
    then obtain r v where r: "dcf_valuation e (Num 0.05) (Num 0.03) 5 = Some r"
      "r ''intrinsic_value'' = Some v" "py_gt v (Num 0) = Inr True"
      by blast
    from get_summary_outcome [OF r] s obtain d
      where "s = recommend ((merged_summary e)(''discount'' \<mapsto> Val d))
                      (spec_recommendation (as_np d)) (colour_of (spec_recommendation (as_np d)))"
      by auto
    with summary_entries(2,3) [OF r(1,2)] True show ?thesis
      by simp
  next
    case False
    have "get_summary e = Inr (merged_summary e)"
    proof (cases "dcf_valuation e (Num 0.05) (Num 0.03) 5")
      case None
      then show ?thesis
        by (rule get_summary_unavailable)
    next
      case (Some r)
      from dcf_intrinsic_value [OF Some] obtain v where v: "r ''intrinsic_value'' = Some v"
        by blast
      with False Some have "py_gt v (Num 0) \<noteq> Inr True"
        by blast
      with Some v show ?thesis
        by (rule get_summary_not_positive)
    qed
    with s have "s = merged_summary e"
      by simp
    with False show ?thesis
      by (simp add: merged_no_recommendation)
  qed
  then show "(s ''recommendation'' \<noteq> None) = ?positive"
    by simp
  from both show "(s ''discount'' \<noteq> None) = (s ''recommendation'' \<noteq> None)"
    by simp
qed

theorem recommendation_gate_witness:
  "dcf_valuation no_statements (Num 0.05) (Num 0.03) 5 = None
   \<and> (\<exists>s. get_summary no_statements = Inr s
         \<and> s ''recommendation'' = None \<and> s ''discount'' = None)
   \<and> (\<exists>r. dcf_valuation idle_engine (Num 0.05) (Num 0.03) 5 = Some r
         \<and> r ''intrinsic_value'' = Some (Np (Fin 0)))
   \<and> (\<exists>s. get_summary idle_engine = Inr s
         \<and> s ''recommendation'' = None \<and> s ''discount'' = None)
   \<and> (\<exists>s r iv. get_summary (priced 1500) = Inr s
         \<and> s ''recommendation'' \<noteq> None \<and> s ''discount'' \<noteq> None
         \<and> dcf_valuation (priced 1500) (Num 0.05) (Num 0.03) 5 = Some r
         \<and> r ''intrinsic_value'' = Some iv \<and> py_gt iv (Num 0) = Inr True)
   \<and> (\<exists>s label d. get_summary float64_engine = Inr s
         \<and> s ''recommendation'' = Some (Txt label) \<and> s ''discount'' = Some (Val d))
   \<and> get_summary bare_engine = Inl ZeroDivisionError"
proof -
  from recommendation_gate [of no_statements] dcf_no_statements
  have first: "\<exists>s. get_summary no_statements = Inr s
          \<and> s ''recommendation'' = None \<and> s ''discount'' = None"
    by blast
  obtain ri where ri: "dcf_valuation idle_engine (Num 0.05) (Num 0.03) 5 = Some ri"
    "ri ''intrinsic_value'' = Some (Np (Fin 0))"
    using dcf_idle_intrinsic by blast
  from recommendation_gate [of idle_engine, THEN conjunct2, THEN conjunct1, rule_format, OF ri(1)]
    ri(2)
  have second: "\<exists>s. get_summary idle_engine = Inr s
          \<and> s ''recommendation'' = None \<and> s ''discount'' = None"
    by simp
  from summary_priced_1500 obtain s where s: "get_summary (priced 1500) = Inr s"
    "s ''recommendation'' \<noteq> None" "s ''discount'' \<noteq> None"
    by auto
  from recommendation_gate [of "priced 1500"] s(1,2)
  obtain r iv where "dcf_valuation (priced 1500) (Num 0.05) (Num 0.03) 5 = Some r"
    "r ''intrinsic_value'' = Some iv" "py_gt iv (Num 0) = Inr True"
    by blast
  with s have third: "\<exists>s r iv. get_summary (priced 1500) = Inr s
         \<and> s ''recommendation'' \<noteq> None \<and> s ''discount'' \<noteq> None
         \<and> dcf_valuation (priced 1500) (Num 0.05) (Num 0.03) 5 = Some r
         \<and> r ''intrinsic_value'' = Some iv \<and> py_gt iv (Num 0) = Inr True"
    by blast
  obtain rf where rf: "dcf_valuation float64_engine (Num 0.05) (Num 0.03) 5 = Some rf"
    "rf ''intrinsic_value'' = Some (Np (Fin (264183375750 / 141158161)))"
    using dcf_float64_intrinsic by blast
  from recommendation_gate [of float64_engine, THEN conjunct2, THEN conjunct1, rule_format,
      OF rf(1)] rf(2)
  have fourth: "\<exists>s label d. get_summary float64_engine = Inr s
         \<and> s ''recommendation'' = Some (Txt label) \<and> s ''discount'' = Some (Val d)"
    by simp
  obtain rb where rb: "dcf_valuation bare_engine (Num 0.05) (Num 0.03) 5 = Some rb"
    "rb ''intrinsic_value'' = Some (Num (264183375750 / 141158161))"
    using dcf_bare_intrinsic by blast
  from recommendation_gate [of bare_engine, THEN conjunct2, THEN conjunct1, rule_format,
      OF rb(1)] rb(2)
  have fifth: "get_summary bare_engine = Inl ZeroDivisionError"
    by (simp add: price_of_bare)
  from first second third fourth fifth dcf_no_statements ri show ?thesis
    by blast
qed

subsection \<open>The division by a zero price\<close>




end
